theory Spec2Isabelle
  imports Complex_Main "HOL-Library.AList"
begin

text \<open>
  The real-time state synchronisation of the dashboard, embedded from its TypeScript
  sources: the trading store (topic handlers, message handling, the periodic stale check
  and the derived trader status), the devices store with the optimistic writes of the
  device card, and the connection managers of the trading stream and of the device stream
  as transition systems over the events of the browser.
\<close>

section \<open>JavaScript values\<close>

text \<open>
  The stores of the dashboard keep whatever the feed sent: a payload is typed
  \<^verbatim>\<open>unknown\<close> and only cast, never validated, so the slices of the state hold
  arbitrary parsed JSON.  A value is therefore a JavaScript value; an object is the list
  of its own properties in enumeration order, with distinct keys.  (The place JavaScript
  gives to integer-like keys in that order is not modelled; nothing below depends on it.)
\<close>

datatype jsval =
    Undefined
  | Null
  | JBool bool
  | JNum real
  | JStr string
  | JArr "jsval list"
  | JObj "(string \<times> jsval) list"

type_synonym props = "(string \<times> jsval) list"

text \<open>
  The exceptions of the modelled code: reading a property of \<^verbatim>\<open>null\<close> or
  \<^verbatim>\<open>undefined\<close>, and calling what is no function or a method without its
  receiver, throw a TypeError.  (A frame that \<^verbatim>\<open>JSON.parse\<close> rejects is \<open>None\<close>
  of the parser, see \<open>onmessage\<close>.)
\<close>

datatype js_error = TypeError

text \<open>Truthiness, as \<^verbatim>\<open>if (x)\<close>, \<^verbatim>\<open>!x\<close>, \<^verbatim>\<open>x || y\<close> and \<^verbatim>\<open>x && y\<close> test it.\<close>

fun truthy :: "jsval \<Rightarrow> bool" where
  "truthy Undefined = False"
| "truthy Null = False"
| "truthy (JBool b) = b"
| "truthy (JNum n) = (n \<noteq> 0)"
| "truthy (JStr s) = (s \<noteq> [])"
| "truthy (JArr xs) = True"
| "truthy (JObj ps) = True"

fun nullish :: "jsval \<Rightarrow> bool" where
  "nullish Undefined = True"
| "nullish Null = True"
| "nullish v = False"

text \<open>\<^verbatim>\<open>a || b\<close> and \<^verbatim>\<open>a ?? b\<close> on values.\<close>

definition js_or :: "jsval \<Rightarrow> jsval \<Rightarrow> jsval" where
  "js_or a b = (if truthy a then a else b)"

definition js_coalesce :: "jsval \<Rightarrow> jsval \<Rightarrow> jsval" where
  "js_coalesce a b = (if nullish a then b else a)"

text \<open>
  Reading an own property of a property list; a missing property reads as
  \<^verbatim>\<open>undefined\<close>.
\<close>

definition field :: "props \<Rightarrow> string \<Rightarrow> jsval" where
  "field ps k = (case map_of ps k of None \<Rightarrow> Undefined | Some v \<Rightarrow> v)"

text \<open>
  \<^verbatim>\<open>v?.k\<close>: \<^verbatim>\<open>undefined\<close> on \<^verbatim>\<open>null\<close> and \<^verbatim>\<open>undefined\<close>, the property
  otherwise.  The names the stores read (\<^verbatim>\<open>status\<close>, \<^verbatim>\<open>mode\<close>, \<^verbatim>\<open>timestamp\<close>,
  \<^verbatim>\<open>positions\<close>, ...) are no built-in member of a string, number, boolean, array or
  of \<^verbatim>\<open>Object.prototype\<close>, so on anything but an object with that own property the
  read gives \<^verbatim>\<open>undefined\<close>.
\<close>

fun opt_prop :: "jsval \<Rightarrow> string \<Rightarrow> jsval" where
  "opt_prop (JObj ps) k = field ps k"
| "opt_prop v k = Undefined"

text \<open>\<^verbatim>\<open>v.k\<close>: a TypeError on \<^verbatim>\<open>null\<close> and \<^verbatim>\<open>undefined\<close>.\<close>

definition get_prop :: "jsval \<Rightarrow> string \<Rightarrow> js_error + jsval" where
  "get_prop v k = (if nullish v then Inl TypeError else Inr (opt_prop v k))"

text \<open>
  Writing an own data property, as a property of an object literal or a spread does:
  an existing key keeps its place, a new key goes last.
\<close>

abbreviation set_prop :: "string \<Rightarrow> jsval \<Rightarrow> props \<Rightarrow> props" where
  "set_prop \<equiv> AList.update"

text \<open>\<^verbatim>\<open>{...target, ...source}\<close> on property lists.\<close>

definition spread :: "props \<Rightarrow> props \<Rightarrow> props" where
  "spread target source = fold (\<lambda>(k, v). set_prop k v) source target"

text \<open>Decimal rendering of an array index.\<close>

fun string_of_nat :: "nat \<Rightarrow> string" where
  "string_of_nat n =
     (if n < 10 then [''0123456789'' ! n]
      else string_of_nat (n div 10) @ [''0123456789'' ! (n mod 10)])"

declare string_of_nat.simps [simp del]

text \<open>
  The own enumerable properties of a value, as \<^verbatim>\<open>Object.entries(v)\<close> and the spread
  \<^verbatim>\<open>{...v}\<close> see them: the properties of an object, the indexed elements of an array,
  the indexed characters of a string, and none for a number, a boolean, \<^verbatim>\<open>null\<close> or
  \<^verbatim>\<open>undefined\<close> (on which the spread is empty; \<^verbatim>\<open>Object.entries\<close> is only called on
  truthy values).
\<close>

fun own_entries :: "jsval \<Rightarrow> props" where
  "own_entries (JObj ps) = ps"
| "own_entries (JArr xs) = zip (map string_of_nat [0..<length xs]) xs"
| "own_entries (JStr s) = zip (map string_of_nat [0..<length s]) (map (\<lambda>c. JStr [c]) s)"
| "own_entries v = []"

section \<open>The trading store (\<^verbatim>\<open>stores/trading.ts\<close>)\<close>

text \<open>
  What the store takes from the JavaScript runtime: the clock (\<^verbatim>\<open>Date.now()\<close> and
  \<^verbatim>\<open>new Date().toISOString()\<close>), \<^verbatim>\<open>new Date(x).getTime()\<close> (\<open>None\<close> is
  \<^verbatim>\<open>NaN\<close>, the time of an invalid date) and the string conversion of a template
  literal.
\<close>

record runtime =
  now_ms :: int
  now_iso :: string
  date_getTime :: "jsval \<Rightarrow> int option"
  to_string :: "jsval \<Rightarrow> string"

text \<open>
  \<^verbatim>\<open>TradingState\<close> is an interface over a plain object that is rebuilt by spreads
  (\<^verbatim>\<open>{...state, ...updates, lastUpdate}\<close>), so the state is the property list of that
  object.
\<close>

definition initialState :: props where
  "initialState =
     [(''connected'', JBool False), (''lastUpdate'', Null), (''error'', Null),
      (''heartbeat'', Null), (''mlEntry'', Null), (''mlExit'', Null),
      (''onlineLearning'', Null), (''dna'', Null), (''t5008'', Null),
      (''scannerStock'', Null), (''scannerForex'', Null), (''engine'', Null),
      (''ibkr'', Null), (''breakers'', Null),
      (''positions'', JArr []), (''closedToday'', JArr []), (''summary'', Null),
      (''pipeline'', Null), (''recommendations'', JArr []), (''errors'', Null),
      (''account'', Null), (''currencies'', Null), (''capital'', Null),
      (''marketControl'', Null),
      (''marginProtectionConfig'', Null), (''marginProtectionScores'', Null),
      (''tradingConfig'', Null)]"

subsection \<open>Stale data detection\<close>

definition STALE_THRESHOLD_MS :: int where
  "STALE_THRESHOLD_MS = 75000"

text \<open>A comparison with \<^verbatim>\<open>NaN\<close> is false, so an unreadable timestamp is not stale.\<close>

definition isDataStale :: "runtime \<Rightarrow> jsval \<Rightarrow> bool" where
  "isDataStale rt lastUpdate =
     (if \<not> truthy lastUpdate then True
      else case date_getTime rt lastUpdate of
             None \<Rightarrow> False
           | Some lastTime \<Rightarrow> now_ms rt - lastTime > STALE_THRESHOLD_MS)"

subsection \<open>The topic handlers\<close>

text \<open>
  A handler takes the state and the payload and returns a partial state; it throws where
  the source reads a property of \<^verbatim>\<open>null\<close> or \<^verbatim>\<open>undefined\<close>.
\<close>

type_synonym handler = "props \<Rightarrow> jsval \<Rightarrow> js_error + props"

definition slice_handler :: "string \<Rightarrow> handler" where
  "slice_handler k = (\<lambda>state payload. Inr [(k, payload)])"

definition list_handler :: "string \<Rightarrow> string \<Rightarrow> handler" where
  "list_handler k source = (\<lambda>state payload.
     case get_prop payload source of
       Inl e \<Rightarrow> Inl e
     | Inr xs \<Rightarrow> Inr [(k, js_or xs (JArr []))])"

definition convert_balance :: "jsval \<Rightarrow> js_error + jsval" where
  "convert_balance balance =
     (if nullish balance then Inl TypeError
      else Inr (JObj
        [(''cash'', js_or (opt_prop balance ''cash'') (JNum 0)),
         (''settled_cash'',
            js_or (js_or (opt_prop balance ''settled_cash'') (opt_prop balance ''settled''))
              (JNum 0)),
         (''accrued_interest'', js_or (opt_prop balance ''accrued_interest'') (JNum 0))]))"

text \<open>
  The loop \<^verbatim>\<open>for (const [currency, balance] of Object.entries(data.currencies))\<close>,
  with the object under construction as accumulator.  An assignment to the key
  \<^verbatim>\<open>__proto__\<close> runs the inherited setter and creates no own property.
\<close>

fun convert_currencies :: "props \<Rightarrow> props \<Rightarrow> js_error + props" where
  "convert_currencies acc [] = Inr acc"
| "convert_currencies acc ((currency, balance) # rest) =
     (case convert_balance balance of
        Inl e \<Rightarrow> Inl e
      | Inr b \<Rightarrow>
          convert_currencies
            (if currency = ''__proto__'' then acc else set_prop currency b acc) rest)"

definition currencies_handler :: handler where
  "currencies_handler = (\<lambda>state payload.
     if nullish payload then Inl TypeError
     else
       let base_currency =
             js_or (js_or (opt_prop payload ''base_currency'')
                          (opt_prop payload ''primary_currency'')) (JStr ''USD'');
           currencies = opt_prop payload ''currencies''
       in if truthy currencies then
            (case convert_currencies [] (own_entries currencies) of
               Inl e \<Rightarrow> Inl e
             | Inr cs \<Rightarrow>
                 Inr [(''currencies'',
                       JObj [(''currencies'', JObj cs), (''base_currency'', base_currency)])])
          else
            Inr [(''currencies'',
                  JObj [(''currencies'', JObj []), (''base_currency'', base_currency)])])"

definition capital_handler :: handler where
  "capital_handler = (\<lambda>state payload.
     if nullish payload then Inl TypeError
     else
       let stock = opt_prop payload ''stock''; forex = opt_prop payload ''forex''
       in Inr [(''capital'', JObj
            [(''stock_budget'', js_or (opt_prop stock ''budget'') (JNum 0)),
             (''stock_used'', js_or (opt_prop stock ''used'') (JNum 0)),
             (''stock_available'', js_or (opt_prop stock ''available'') (JNum 0)),
             (''forex_budget'', js_or (opt_prop forex ''budget'') (JNum 0)),
             (''forex_used'', js_or (opt_prop forex ''used'') (JNum 0)),
             (''forex_available'', js_or (opt_prop forex ''available'') (JNum 0)),
             (''reserve'', js_or (opt_prop payload ''reserve'') (JNum 0)),
             (''session'', js_or (opt_prop payload ''session'') (JStr ''UNKNOWN'')),
             (''stock_enabled'', js_coalesce (opt_prop stock ''enabled'') (JBool True)),
             (''forex_enabled'', js_coalesce (opt_prop forex ''enabled'') (JBool True))])])"

definition control_handler :: handler where
  "control_handler = (\<lambda>state payload.
     if nullish payload then Inl TypeError
     else
       let stock = opt_prop payload ''stock''; forex = opt_prop payload ''forex''
       in Inr [(''marketControl'', JObj
            [(''stock_enabled'',
                js_coalesce (js_coalesce (opt_prop stock ''enabled'')
                                         (opt_prop payload ''stock_enabled'')) (JBool True)),
             (''forex_enabled'',
                js_coalesce (js_coalesce (opt_prop forex ''enabled'')
                                         (opt_prop payload ''forex_enabled'')) (JBool True)),
             (''stock_reason'',
                js_or (js_or (opt_prop stock ''reason'') (opt_prop payload ''stock_reason''))
                  (JStr [])),
             (''forex_reason'',
                js_or (js_or (opt_prop forex ''reason'') (opt_prop payload ''forex_reason''))
                  (JStr []))])])"

definition TOPIC_HANDLERS :: "(string \<times> handler) list" where
  "TOPIC_HANDLERS =
     [(''trader/services/heartbeat'', slice_handler ''heartbeat''),
      (''trader/services/ml_entry'', slice_handler ''mlEntry''),
      (''trader/services/ml_exit'', slice_handler ''mlExit''),
      (''trader/services/online_learning'', slice_handler ''onlineLearning''),
      (''trader/services/dna'', slice_handler ''dna''),
      (''trader/services/t5008'', slice_handler ''t5008''),
      (''trader/services/scanner_stock'', slice_handler ''scannerStock''),
      (''trader/services/scanner_forex'', slice_handler ''scannerForex''),
      (''trader/services/engine'', slice_handler ''engine''),
      (''trader/services/ibkr'', slice_handler ''ibkr''),
      (''trader/services/breakers'', slice_handler ''breakers''),
      (''trader/portfolio/positions'', list_handler ''positions'' ''positions''),
      (''trader/portfolio/closed_today'', list_handler ''closedToday'' ''trades''),
      (''trader/portfolio/summary'', slice_handler ''summary''),
      (''trader/scanner/pipeline'', slice_handler ''pipeline''),
      (''trader/scanner/recommendations'', list_handler ''recommendations'' ''candidates''),
      (''trader/errors/summary'', slice_handler ''errors''),
      (''trader/account/summary'', slice_handler ''account''),
      (''trader/account/currencies'', currencies_handler),
      (''trader/capital/allocation'', capital_handler),
      (''trader/control/status'', control_handler),
      (''trader/margin_protection/config'', slice_handler ''marginProtectionConfig''),
      (''trader/margin_protection/scores'', slice_handler ''marginProtectionScores''),
      (''trader/config/trading'', slice_handler ''tradingConfig'')]"

text \<open>
  \<^verbatim>\<open>TOPIC_HANDLERS\<close> is an object literal, and \<^verbatim>\<open>TOPIC_HANDLERS[message.topic]\<close>
  an ordinary property read: a topic that is no own key but names a member of
  \<^verbatim>\<open>Object.prototype\<close> reads that member, which is truthy.  Called as
  \<^verbatim>\<open>handler(state, payload)\<close> in module (strict) code, so with \<^verbatim>\<open>this\<close> undefined:
  \<^verbatim>\<open>constructor\<close> is \<^verbatim>\<open>Object\<close>, and \<^verbatim>\<open>Object(state, payload)\<close> returns
  \<^verbatim>\<open>state\<close> itself; \<^verbatim>\<open>toString\<close> returns the string \<^verbatim>\<open>[object Undefined]\<close>;
  the other methods throw a TypeError at \<^verbatim>\<open>ToObject(this)\<close>; \<^verbatim>\<open>__proto__\<close> reads
  \<^verbatim>\<open>Object.prototype\<close>, which is not callable.
\<close>

definition Object_prototype_member :: "string \<Rightarrow> handler option" where
  "Object_prototype_member name =
     (if name = ''constructor'' then Some (\<lambda>state payload. Inr state)
      else if name = ''toString'' then
        Some (\<lambda>state payload. Inr (own_entries (JStr ''[object Undefined]'')))
      else if name \<in> set [''toLocaleString'', ''valueOf'', ''hasOwnProperty'',
                           ''isPrototypeOf'', ''propertyIsEnumerable'',
                           ''__defineGetter__'', ''__defineSetter__'',
                           ''__lookupGetter__'', ''__lookupSetter__'', ''__proto__'']
      then Some (\<lambda>state payload. Inl TypeError)
      else None)"

definition lookup_handler :: "string \<Rightarrow> handler option" where
  "lookup_handler topic =
     (case map_of TOPIC_HANDLERS topic of
        Some h \<Rightarrow> Some h
      | None \<Rightarrow> Object_prototype_member topic)"

subsection \<open>Message handling\<close>

text \<open>
  A frame read as \<^verbatim>\<open>{ type: string; topic?: string; payload?: unknown }\<close>; an absent
  payload is \<^verbatim>\<open>undefined\<close>.
\<close>

record message =
  mtype :: string
  topic :: "string option"
  payload :: jsval

text \<open>
  \<^verbatim>\<open>handleMessage\<close>: the new state is computed inside one \<^verbatim>\<open>update\<close> call of the
  store; an exception of the handler leaves that call before the store is written.  The
  \<^verbatim>\<open>console.log\<close> lines are left out.
\<close>

definition handleMessage :: "runtime \<Rightarrow> props \<Rightarrow> message \<Rightarrow> js_error + props" where
  "handleMessage rt state m =
     (case topic m of
        None \<Rightarrow> Inr state
      | Some t \<Rightarrow>
          if mtype m = ''mqtt'' \<and> t \<noteq> [] \<and> truthy (payload m) then
            (case lookup_handler t of
               None \<Rightarrow> Inr state
             | Some handler \<Rightarrow>
                 (case handler state (payload m) of
                    Inl e \<Rightarrow> Inl e
                  | Inr updates \<Rightarrow>
                      let payloadTimestamp = opt_prop (payload m) ''timestamp'';
                          messageTime = js_or payloadTimestamp (JStr (now_iso rt))
                      in Inr (set_prop ''lastUpdate'' messageTime (spread state updates))))
          else Inr state)"

text \<open>
  \<^verbatim>\<open>ws.onmessage\<close>: \<open>parse\<close> is \<^verbatim>\<open>JSON.parse\<close> read at the message type, \<open>None\<close>
  where it throws; the \<^verbatim>\<open>catch\<close> swallows that and every exception of
  \<^verbatim>\<open>handleMessage\<close>.
\<close>

definition onmessage ::
  "(string \<Rightarrow> message option) \<Rightarrow> runtime \<Rightarrow> props \<Rightarrow> string \<Rightarrow> props" where
  "onmessage parse rt state raw =
     (case parse raw of
        None \<Rightarrow> state
      | Some m \<Rightarrow>
          (case handleMessage rt state m of
             Inl e \<Rightarrow> state
           | Inr state' \<Rightarrow> state'))"

subsection \<open>The periodic stale check\<close>

text \<open>The callback \<^verbatim>\<open>startStaleCheck\<close> hands to \<^verbatim>\<open>setInterval\<close>.\<close>

definition staleCheck :: "runtime \<Rightarrow> props \<Rightarrow> props" where
  "staleCheck rt state =
     (if truthy (field state ''lastUpdate'') \<and> isDataStale rt (field state ''lastUpdate'')
      then
        set_prop ''error'' (JStr ''Trader offline - no heartbeat received'')
          (set_prop ''engine''
             (if truthy (field state ''engine'')
              then JObj (set_prop ''status'' (JStr ''DOWN'')
                           (own_entries (field state ''engine'')))
              else Null)
             state)
      else state)"

subsection \<open>The derived trader status\<close>

datatype TraderStatusValue = RUNNING | PAUSED | STOPPED | OFFLINE | UNKNOWN

record TraderStatusInfo =
  status :: TraderStatusValue
  mode :: jsval
  lastUpdate :: jsval
  isStale :: bool
  uptimeSeconds :: jsval
  reason :: string

definition traderStatus :: "runtime \<Rightarrow> props \<Rightarrow> TraderStatusInfo" where
  "traderStatus rt trading =
     (let stale = isDataStale rt (field trading ''lastUpdate'');
          engine = field trading ''engine'';
          heartbeat = field trading ''heartbeat'';
          engineStatus = opt_prop engine ''status'';
          uptime = js_or (opt_prop heartbeat ''uptime_seconds'') Null
      in
        if \<not> truthy engine \<and> \<not> truthy heartbeat then
          \<lparr>status = UNKNOWN, mode = Null, lastUpdate = field trading ''lastUpdate'',
           isStale = True, uptimeSeconds = Null,
           reason = ''No data received from trader''\<rparr>
        else if stale then
          \<lparr>status = OFFLINE, mode = js_or (opt_prop engine ''mode'') Null,
           lastUpdate = field trading ''lastUpdate'', isStale = True,
           uptimeSeconds = uptime,
           reason = ''No heartbeat received - trader may be stopped''\<rparr>
        else if engineStatus = JStr ''RUNNING'' \<or> engineStatus = JStr ''ok'' then
          \<lparr>status = RUNNING, mode = js_or (opt_prop engine ''mode'') (JStr ''PAPER''),
           lastUpdate = field trading ''lastUpdate'', isStale = False,
           uptimeSeconds = uptime, reason = ''Trader is active''\<rparr>
        else if engineStatus = JStr ''PAUSED'' \<or> engineStatus = JStr ''warning'' then
          \<lparr>status = PAUSED, mode = js_or (opt_prop engine ''mode'') (JStr ''PAPER''),
           lastUpdate = field trading ''lastUpdate'', isStale = False,
           uptimeSeconds = uptime,
           reason = ''Trader paused - IBKR may be disconnected''\<rparr>
        else if engineStatus = JStr ''DOWN'' \<or> engineStatus = JStr ''error''
                \<or> engineStatus = JStr ''STOPPED'' then
          \<lparr>status = STOPPED, mode = js_or (opt_prop engine ''mode'') Null,
           lastUpdate = field trading ''lastUpdate'', isStale = False,
           uptimeSeconds = uptime, reason = ''Trader engine stopped''\<rparr>
        else
          \<lparr>status = UNKNOWN, mode = js_or (opt_prop engine ''mode'') Null,
           lastUpdate = field trading ''lastUpdate'', isStale = stale,
           uptimeSeconds = uptime,
           reason = ''Unknown engine status: '' @ to_string rt engineStatus\<rparr>)"

section \<open>The devices store (\<^verbatim>\<open>stores/devices.ts\<close>)\<close>

text \<open>
  A device is the object the API returned, read at \<^verbatim>\<open>DeviceWithState\<close>; the cards
  also read properties the interface does not declare (\<^verbatim>\<open>switch_state\<close>,
  \<^verbatim>\<open>level\<close>), so a device is a property list too.  \<^verbatim>\<open>Map<number, DeviceWithState>\<close>
  is an association list in insertion order: \<^verbatim>\<open>Map.set\<close> on a present key keeps its
  place.
\<close>

type_synonym device = props

record DeviceState =
  devices :: "(jsval \<times> device) list"
  loading :: bool
  error :: "string option"
  lastUpdated :: "int option"

text \<open>
  The search loop of \<^verbatim>\<open>updateDeviceState\<close>: the first device of the map whose label
  or name is the device id of the feed.
\<close>

fun find_target :: "string \<Rightarrow> (jsval \<times> device) list \<Rightarrow> device option" where
  "find_target deviceId [] = None"
| "find_target deviceId ((key, device) # rest) =
     (if field device ''label'' = JStr deviceId \<or> field device ''name'' = JStr deviceId
      then Some device
      else find_target deviceId rest)"

definition updateDeviceState :: "string \<Rightarrow> string \<Rightarrow> jsval \<Rightarrow> DeviceState \<Rightarrow> DeviceState" where
  "updateDeviceState deviceId attribute v state =
     (case find_target deviceId (devices state) of
        Some targetDevice \<Rightarrow>
          let updatedDevice =
                set_prop ''state''
                  (JObj (set_prop attribute v (own_entries (field targetDevice ''state''))))
                  targetDevice
          in state\<lparr>devices :=
                     AList.update (field targetDevice ''id'') updatedDevice (devices state)\<rparr>
      | None \<Rightarrow> state)"

definition setDeviceSwitch :: "jsval \<Rightarrow> string \<Rightarrow> DeviceState \<Rightarrow> DeviceState" where
  "setDeviceSwitch deviceId switchState state =
     (case map_of (devices state) deviceId of
        Some device \<Rightarrow>
          state\<lparr>devices :=
            AList.update deviceId
              (set_prop ''state''
                 (JObj (set_prop ''switch'' (JStr switchState)
                          (own_entries (field device ''state''))))
                 (set_prop ''switch_state'' (JStr switchState) device))
              (devices state)\<rparr>
      | None \<Rightarrow> state)"

section \<open>The device card (\<^verbatim>\<open>handleToggle\<close>)\<close>

text \<open>The derived values \<^verbatim>\<open>level\<close> and \<^verbatim>\<open>isOn\<close> of the card.\<close>

definition card_level :: "device \<Rightarrow> jsval" where
  "card_level device =
     (case field device ''level'' of
        JNum n \<Rightarrow> JNum n
      | _ \<Rightarrow> (case opt_prop (field device ''state'') ''level'' of
                JNum n \<Rightarrow> JNum n
              | _ \<Rightarrow> Null))"

definition isOn :: "device \<Rightarrow> bool" where
  "isOn device =
     (field device ''switch_state'' = JStr ''on''
      \<or> opt_prop (field device ''state'') ''switch'' = JStr ''on''
      \<or> opt_prop (field device ''state'') ''switch'' = JBool True
      \<or> (case card_level device of JNum n \<Rightarrow> n > 0 | _ \<Rightarrow> False))"

text \<open>
  \<^verbatim>\<open>handleToggle\<close> is asynchronous: it runs up to the \<^verbatim>\<open>await\<close> of the command,
  and resumes when the command has resolved or rejected.  The card holds the flag
  \<^verbatim>\<open>loading\<close> and the device it shows; \<open>console\<close> collects the
  \<^verbatim>\<open>console.error\<close> lines and \<open>timeouts\<close> the delays handed to
  \<^verbatim>\<open>setTimeout\<close> (by \<^verbatim>\<open>refreshDeviceAfterCommand\<close>).
\<close>

datatype command = TurnOn jsval | TurnOff jsval

datatype 'a settled = Resolved | Rejected 'a

record card =
  card_loading :: bool
  card_device :: device
  console :: "(string \<times> jsval) list"
  timeouts :: "nat list"

text \<open>
  Up to the \<^verbatim>\<open>await\<close>: nothing when a toggle is already running; otherwise the card
  is loading, and the command and the value \<^verbatim>\<open>newState\<close> are fixed.  The store is
  not touched.
\<close>

definition handleToggle_call :: "card \<Rightarrow> card \<times> (command \<times> string) option" where
  "handleToggle_call c =
     (if card_loading c then (c, None)
      else
        let newState = (if isOn (card_device c) then ''off'' else ''on'');
            cmd = (if isOn (card_device c) then TurnOff (field (card_device c) ''id'')
                   else TurnOn (field (card_device c) ''id''))
        in (c\<lparr>card_loading := True\<rparr>, Some (cmd, newState)))"

text \<open>
  After the \<^verbatim>\<open>await\<close>: on success the store is written and the refresh scheduled;
  on rejection the \<^verbatim>\<open>catch\<close> logs; \<^verbatim>\<open>finally\<close> clears the flag.
\<close>

definition handleToggle_settled ::
  "jsval settled \<Rightarrow> string \<Rightarrow> card \<times> DeviceState \<Rightarrow> card \<times> DeviceState" where
  "handleToggle_settled outcome newState cs =
     (case cs of (c, store) \<Rightarrow>
        (case outcome of
           Resolved \<Rightarrow>
             (c\<lparr>timeouts := timeouts c @ [1500], card_loading := False\<rparr>,
              setDeviceSwitch (field (card_device c) ''id'') newState store)
         | Rejected e \<Rightarrow>
             (c\<lparr>console := console c @ [(''Failed to toggle device:'', e)],
                card_loading := False\<rparr>,
              store)))"

section \<open>The connection managers\<close>

text \<open>
  Both stores keep, in the closure of their factory, the current socket \<^verbatim>\<open>ws\<close>, the
  pending \<^verbatim>\<open>reconnectTimer\<close> and one interval timer.  The browser is modelled by
  the sockets created so far, each with its \<^verbatim>\<open>readyState\<close> (a socket is named by
  its position), and by the timers that are set and not cleared, each with its callback
  and its delay in milliseconds.  The four handlers \<^verbatim>\<open>connect\<close> assigns to a socket
  stay on it: no code of the stores removes a handler.  Outbound frames (the
  subscription, the pings) touch none of these variables and are left out.
\<close>

datatype ready_state = CONNECTING | OPEN | CLOSING | CLOSED

datatype callback = ReconnectCb | StaleCheckCb | PingCb

record 'st channel =
  store :: 'st
  ws :: "nat option"
  reconnectTimer :: "nat option"
  sockets :: "ready_state list"
  timers :: "(nat \<times> callback \<times> nat) list"
  timer_seq :: nat

text \<open>\<^verbatim>\<open>ws?.readyState === WebSocket.OPEN\<close>\<close>

definition ws_is_open :: "('st, 'z) channel_scheme \<Rightarrow> bool" where
  "ws_is_open c =
     (case ws c of None \<Rightarrow> False | Some i \<Rightarrow> i < length (sockets c) \<and> sockets c ! i = OPEN)"

text \<open>
  \<^verbatim>\<open>setTimeout\<close> and \<^verbatim>\<open>setInterval\<close>: the new timer gets the next identifier,
  \<open>timer_seq\<close> of the state before the call.
\<close>

definition setTimer ::
  "callback \<Rightarrow> nat \<Rightarrow> ('st, 'z) channel_scheme \<Rightarrow> ('st, 'z) channel_scheme" where
  "setTimer cb delay c =
     c\<lparr>timers := timers c @ [(timer_seq c, cb, delay)], timer_seq := Suc (timer_seq c)\<rparr>"

text \<open>\<^verbatim>\<open>clearTimeout\<close> and \<^verbatim>\<open>clearInterval\<close>\<close>

definition clearTimer :: "nat \<Rightarrow> ('st, 'z) channel_scheme \<Rightarrow> ('st, 'z) channel_scheme" where
  "clearTimer i c = c\<lparr>timers := filter (\<lambda>(j, cb, d). j \<noteq> i) (timers c)\<rparr>"

text \<open>\<^verbatim>\<open>ws = new WebSocket(WS_URL)\<close>, when the constructor does not throw.\<close>

definition new_WebSocket :: "('st, 'z) channel_scheme \<Rightarrow> ('st, 'z) channel_scheme" where
  "new_WebSocket c = c\<lparr>ws := Some (length (sockets c)), sockets := sockets c @ [CONNECTING]\<rparr>"

text \<open>
  \<^verbatim>\<open>if (ws) { ws.close(); ws = null; }\<close>: a socket that is connecting or open starts
  its closing handshake; its close event comes later.
\<close>

definition close_ws :: "('st, 'z) channel_scheme \<Rightarrow> ('st, 'z) channel_scheme" where
  "close_ws c =
     (case ws c of
        None \<Rightarrow> c
      | Some i \<Rightarrow>
          c\<lparr>sockets := (if i < length (sockets c) \<and> sockets c ! i \<in> {CONNECTING, OPEN}
                          then (sockets c)[i := CLOSING] else sockets c),
             ws := None\<rparr>)"

definition clear_reconnectTimer :: "('st, 'z) channel_scheme \<Rightarrow> ('st, 'z) channel_scheme" where
  "clear_reconnectTimer c =
     (case reconnectTimer c of
        None \<Rightarrow> c
      | Some i \<Rightarrow> (clearTimer i c)\<lparr>reconnectTimer := None\<rparr>)"

text \<open>
  What the browser and the pages can do: call \<^verbatim>\<open>connect()\<close> or
  \<^verbatim>\<open>disconnect()\<close>, deliver an event of a socket, fire a pending timer.  The flag of
  a step that may run \<^verbatim>\<open>connect()\<close> says whether \<^verbatim>\<open>new WebSocket\<close> returns
  (\<open>True\<close>) or throws.
\<close>

datatype event =
    Call_connect bool
  | Call_disconnect
  | Socket_open nat
  | Socket_message nat string
  | Socket_error nat
  | Socket_close nat
  | Timer_fire nat bool

text \<open>The timers with a given callback that are pending, with their delays.\<close>

definition pending :: "callback \<Rightarrow> ('st, 'z) channel_scheme \<Rightarrow> (nat \<times> nat) list" where
  "pending cb c = map (\<lambda>(i, cb', d). (i, d)) (filter (\<lambda>(i, cb', d). cb' = cb) (timers c))"

subsection \<open>The trading stream\<close>

record trading_client = "props channel" +
  staleCheckTimer :: "nat option"

definition startStaleCheck :: "trading_client \<Rightarrow> trading_client" where
  "startStaleCheck c =
     (if staleCheckTimer c \<noteq> None then c
      else (setTimer StaleCheckCb 30000 c)\<lparr>staleCheckTimer := Some (timer_seq c)\<rparr>)"

definition stopStaleCheck :: "trading_client \<Rightarrow> trading_client" where
  "stopStaleCheck c =
     (case staleCheckTimer c of
        None \<Rightarrow> c
      | Some i \<Rightarrow> (clearTimer i c)\<lparr>staleCheckTimer := None\<rparr>)"

definition trading_connect :: "bool \<Rightarrow> trading_client \<Rightarrow> trading_client" where
  "trading_connect ok c =
     (if ws_is_open c then c
      else
        let c1 = c\<lparr>store := set_prop ''error'' Null (store c)\<rparr>
        in if ok then new_WebSocket c1
           else c1\<lparr>store := set_prop ''error'' (JStr ''Failed to connect'') (store c1)\<rparr>)"

definition trading_onopen :: "trading_client \<Rightarrow> trading_client" where
  "trading_onopen c =
     startStaleCheck
       (c\<lparr>store := set_prop ''error'' Null (set_prop ''connected'' (JBool True) (store c))\<rparr>)"

definition trading_onerror :: "trading_client \<Rightarrow> trading_client" where
  "trading_onerror c = c\<lparr>store := set_prop ''error'' (JStr ''Connection error'') (store c)\<rparr>"

definition trading_onclose :: "trading_client \<Rightarrow> trading_client" where
  "trading_onclose c =
     (let c1 = c\<lparr>store := set_prop ''connected'' (JBool False) (store c)\<rparr>
      in if reconnectTimer c1 = None
         then (setTimer ReconnectCb 5000 c1)\<lparr>reconnectTimer := Some (timer_seq c1)\<rparr>
         else c1)"

definition trading_disconnect :: "trading_client \<Rightarrow> trading_client" where
  "trading_disconnect c =
     (close_ws (clear_reconnectTimer (stopStaleCheck c)))\<lparr>store := initialState\<rparr>"

text \<open>The callback of a timer that fires; a timeout is spent, an interval stays.\<close>

definition trading_timer ::
  "runtime \<Rightarrow> nat \<Rightarrow> bool \<Rightarrow> trading_client \<Rightarrow> trading_client" where
  "trading_timer rt i ok c =
     (case map_of (timers c) i of
        None \<Rightarrow> c
      | Some (ReconnectCb, d) \<Rightarrow> trading_connect ok ((clearTimer i c)\<lparr>reconnectTimer := None\<rparr>)
      | Some (StaleCheckCb, d) \<Rightarrow> c\<lparr>store := staleCheck rt (store c)\<rparr>
      | Some (PingCb, d) \<Rightarrow> c)"

text \<open>
  One step.  An open event comes to a connecting socket, a message to an open one, an
  error or a close event to a socket that is not closed yet.
\<close>

fun trading_step ::
  "(string \<Rightarrow> message option) \<Rightarrow> runtime \<Rightarrow> event \<Rightarrow> trading_client \<Rightarrow> trading_client" where
  "trading_step parse rt (Call_connect ok) c = trading_connect ok c"
| "trading_step parse rt Call_disconnect c = trading_disconnect c"
| "trading_step parse rt (Socket_open i) c =
     (if i < length (sockets c) \<and> sockets c ! i = CONNECTING
      then trading_onopen (c\<lparr>sockets := (sockets c)[i := OPEN]\<rparr>) else c)"
| "trading_step parse rt (Socket_message i raw) c =
     (if i < length (sockets c) \<and> sockets c ! i = OPEN
      then c\<lparr>store := onmessage parse rt (store c) raw\<rparr> else c)"
| "trading_step parse rt (Socket_error i) c =
     (if i < length (sockets c) \<and> sockets c ! i \<noteq> CLOSED then trading_onerror c else c)"
| "trading_step parse rt (Socket_close i) c =
     (if i < length (sockets c) \<and> sockets c ! i \<noteq> CLOSED
      then trading_onclose (c\<lparr>sockets := (sockets c)[i := CLOSED]\<rparr>) else c)"
| "trading_step parse rt (Timer_fire i ok) c = trading_timer rt i ok c"

definition trading_run ::
  "(string \<Rightarrow> message option) \<Rightarrow> (runtime \<times> event) list \<Rightarrow> trading_client \<Rightarrow> trading_client"
  where
  "trading_run parse evs c = fold (\<lambda>(rt, ev). trading_step parse rt ev) evs c"

definition trading_init :: trading_client where
  "trading_init =
     \<lparr>store = initialState, ws = None, reconnectTimer = None, sockets = [], timers = [],
      timer_seq = 1, staleCheckTimer = None\<rparr>"

subsection \<open>The device stream (\<^verbatim>\<open>createWebSocketStore\<close>)\<close>

text \<open>
  \<^verbatim>\<open>WsState\<close>; its field \<^verbatim>\<open>error\<close> is \<open>ws_error\<close> here, beside the one of
  \<^verbatim>\<open>DeviceState\<close>.
\<close>

record WsState =
  connected :: bool
  ws_error :: "string option"
  reconnecting :: bool

record websocket_client = "WsState channel" +
  pingInterval :: "nat option"

definition websocket_connect :: "bool \<Rightarrow> websocket_client \<Rightarrow> websocket_client" where
  "websocket_connect ok c =
     (if ws_is_open c then c
      else
        let c1 = c\<lparr>store := (store c)\<lparr>ws_error := None, reconnecting := False\<rparr>\<rparr>
        in if ok then new_WebSocket c1
           else c1\<lparr>store := (store c1)\<lparr>ws_error := Some ''Failed to connect''\<rparr>\<rparr>)"

definition websocket_onopen :: "websocket_client \<Rightarrow> websocket_client" where
  "websocket_onopen c =
     (let c1 = c\<lparr>store := (store c)\<lparr>connected := True, ws_error := None,
                                        reconnecting := False\<rparr>\<rparr>
      in (setTimer PingCb 30000 c1)\<lparr>pingInterval := Some (timer_seq c1)\<rparr>)"

definition websocket_onerror :: "websocket_client \<Rightarrow> websocket_client" where
  "websocket_onerror c = c\<lparr>store := (store c)\<lparr>ws_error := Some ''Connection error''\<rparr>\<rparr>"

definition clear_pingInterval :: "websocket_client \<Rightarrow> websocket_client" where
  "clear_pingInterval c =
     (case pingInterval c of
        None \<Rightarrow> c
      | Some i \<Rightarrow> (clearTimer i c)\<lparr>pingInterval := None\<rparr>)"

definition websocket_onclose :: "websocket_client \<Rightarrow> websocket_client" where
  "websocket_onclose c =
     (let c1 = clear_pingInterval (c\<lparr>store := (store c)\<lparr>connected := False\<rparr>\<rparr>)
      in if reconnectTimer c1 = None
         then (setTimer ReconnectCb 5000 (c1\<lparr>store := (store c1)\<lparr>reconnecting := True\<rparr>\<rparr>))
                \<lparr>reconnectTimer := Some (timer_seq c1)\<rparr>
         else c1)"

definition websocket_disconnect :: "websocket_client \<Rightarrow> websocket_client" where
  "websocket_disconnect c =
     (close_ws (clear_pingInterval (clear_reconnectTimer c)))
       \<lparr>store := \<lparr>connected = False, ws_error = None, reconnecting = False\<rparr>\<rparr>"

definition websocket_timer :: "nat \<Rightarrow> bool \<Rightarrow> websocket_client \<Rightarrow> websocket_client" where
  "websocket_timer i ok c =
     (case map_of (timers c) i of
        None \<Rightarrow> c
      | Some (ReconnectCb, d) \<Rightarrow>
          websocket_connect ok ((clearTimer i c)\<lparr>reconnectTimer := None\<rparr>)
      | Some (StaleCheckCb, d) \<Rightarrow> c
      | Some (PingCb, d) \<Rightarrow> c)"

text \<open>
  One step.  A message of this stream is handed to the devices store and writes none of
  the variables of the connection.
\<close>

fun websocket_step :: "event \<Rightarrow> websocket_client \<Rightarrow> websocket_client" where
  "websocket_step (Call_connect ok) c = websocket_connect ok c"
| "websocket_step Call_disconnect c = websocket_disconnect c"
| "websocket_step (Socket_open i) c =
     (if i < length (sockets c) \<and> sockets c ! i = CONNECTING
      then websocket_onopen (c\<lparr>sockets := (sockets c)[i := OPEN]\<rparr>) else c)"
| "websocket_step (Socket_message i raw) c = c"
| "websocket_step (Socket_error i) c =
     (if i < length (sockets c) \<and> sockets c ! i \<noteq> CLOSED then websocket_onerror c else c)"
| "websocket_step (Socket_close i) c =
     (if i < length (sockets c) \<and> sockets c ! i \<noteq> CLOSED
      then websocket_onclose (c\<lparr>sockets := (sockets c)[i := CLOSED]\<rparr>) else c)"
| "websocket_step (Timer_fire i ok) c = websocket_timer i ok c"

definition websocket_run :: "event list \<Rightarrow> websocket_client \<Rightarrow> websocket_client" where
  "websocket_run evs c = fold websocket_step evs c"

definition websocket_init :: websocket_client where
  "websocket_init =
     \<lparr>store = \<lparr>connected = False, ws_error = None, reconnecting = False\<rparr>,
      ws = None, reconnectTimer = None, sockets = [], timers = [], timer_seq = 1,
      pingInterval = None\<rparr>"

subsection \<open>Invariants of the timers\<close>

text \<open>
  The timers carry distinct identifiers below \<open>timer_seq\<close>, and a reconnect timer is
  pending exactly when \<^verbatim>\<open>reconnectTimer\<close> holds its identifier; its delay is 5000.
\<close>

definition timers_ok :: "('st, 'z) channel_scheme \<Rightarrow> bool" where
  "timers_ok c \<longleftrightarrow>
     distinct (map fst (timers c))
     \<and> (\<forall>i cb d. (i, cb, d) \<in> set (timers c) \<longrightarrow> i < timer_seq c)
     \<and> (\<forall>i d. (i, ReconnectCb, d) \<in> set (timers c) \<longleftrightarrow> reconnectTimer c = Some i \<and> d = 5000)"

text \<open>The identifier in an interval variable names no timer with another callback.\<close>

definition interval_ok :: "callback \<Rightarrow> nat option \<Rightarrow> ('st, 'z) channel_scheme \<Rightarrow> bool" where
  "interval_ok cb v c \<longleftrightarrow>
     (\<forall>j. v = Some j \<longrightarrow>
        j < timer_seq c \<and> (\<forall>cb' d. (j, cb', d) \<in> set (timers c) \<longrightarrow> cb' = cb))"

definition trading_inv :: "trading_client \<Rightarrow> bool" where
  "trading_inv c \<longleftrightarrow> timers_ok c \<and> interval_ok StaleCheckCb (staleCheckTimer c) c"

definition websocket_inv :: "websocket_client \<Rightarrow> bool" where
  "websocket_inv c \<longleftrightarrow> timers_ok c \<and> interval_ok PingCb (pingInterval c) c"

section \<open>Example data\<close>

text \<open>
  Three instants, three minutes and ten seconds apart, and the runtime at each:
  \<open>example_getTime\<close> is \<^verbatim>\<open>new Date(x).getTime()\<close> and \<open>example_to_string\<close> the
  string conversion, on the values of the examples.
\<close>

definition example_getTime :: "jsval \<Rightarrow> int option" where
  "example_getTime v =
     (case v of
        JStr s \<Rightarrow> map_of [(''2025-01-01T00:00:00Z'', 1735689600000),
                          (''2025-01-01T00:03:00Z'', 1735689780000),
                          (''2025-01-01T00:03:10Z'', 1735689790000)] s
      | _ \<Rightarrow> None)"

definition example_to_string :: "jsval \<Rightarrow> string" where
  "example_to_string v = (case v of JStr s \<Rightarrow> s | _ \<Rightarrow> ''undefined'')"

definition at_time :: "int \<Rightarrow> string \<Rightarrow> runtime" where
  "at_time ms stamp =
     \<lparr>now_ms = ms, now_iso = stamp, date_getTime = example_getTime,
      to_string = example_to_string\<rparr>"

definition T0 :: runtime where
  "T0 = at_time 1735689600000 ''2025-01-01T00:00:00Z''"

definition T1 :: runtime where
  "T1 = at_time 1735689780000 ''2025-01-01T00:03:00Z''"

definition T2 :: runtime where
  "T2 = at_time 1735689790000 ''2025-01-01T00:03:10Z''"

text \<open>Messages of the feed.\<close>

definition engine_message :: "string \<Rightarrow> message" where
  "engine_message stamp =
     \<lparr>mtype = ''mqtt'', topic = Some ''trader/services/engine'',
      payload = JObj [(''status'', JStr ''RUNNING''), (''mode'', JStr ''LIVE''),
                      (''timestamp'', JStr stamp)]\<rparr>"

definition heartbeat_message :: "string \<Rightarrow> message" where
  "heartbeat_message stamp =
     \<lparr>mtype = ''mqtt'', topic = Some ''trader/services/heartbeat'',
      payload = JObj [(''status'', JStr ''ok''), (''uptime_seconds'', JNum 42),
                      (''timestamp'', JStr stamp)]\<rparr>"

definition constructor_message :: message where
  "constructor_message =
     \<lparr>mtype = ''mqtt'', topic = Some ''constructor'',
      payload = JObj [(''timestamp'', JStr ''2025-01-01T00:03:00Z'')]\<rparr>"

text \<open>
  Frames, and \<^verbatim>\<open>JSON.parse\<close> on them: engine statuses and heartbeats sent at the
  first and at the last instant, a heartbeat with an empty timestamp, and a frame whose
  topic is \<^verbatim>\<open>constructor\<close>; every other text does not parse.
\<close>

definition frame_engine :: string where
  \<open>frame_engine = ''{"type":"mqtt","topic":"trader/services/engine","payload":{"status":"RUNNING","mode":"LIVE","timestamp":"2025-01-01T00:00:00Z"}}''\<close>

definition frame_heartbeat :: string where
  \<open>frame_heartbeat = ''{"type":"mqtt","topic":"trader/services/heartbeat","payload":{"status":"ok","uptime_seconds":42,"timestamp":"2025-01-01T00:00:00Z"}}''\<close>

definition frame_heartbeat_blank :: string where
  \<open>frame_heartbeat_blank = ''{"type":"mqtt","topic":"trader/services/heartbeat","payload":{"status":"ok","uptime_seconds":42,"timestamp":""}}''\<close>

definition frame_engine_late :: string where
  \<open>frame_engine_late = ''{"type":"mqtt","topic":"trader/services/engine","payload":{"status":"RUNNING","mode":"LIVE","timestamp":"2025-01-01T00:03:10Z"}}''\<close>

definition frame_heartbeat_late :: string where
  \<open>frame_heartbeat_late = ''{"type":"mqtt","topic":"trader/services/heartbeat","payload":{"status":"ok","uptime_seconds":42,"timestamp":"2025-01-01T00:03:10Z"}}''\<close>

definition frame_constructor :: string where
  \<open>frame_constructor = ''{"type":"mqtt","topic":"constructor","payload":{"timestamp":"2025-01-01T00:03:00Z"}}''\<close>

definition example_parse :: "string \<Rightarrow> message option" where
  "example_parse raw =
     (if raw = frame_engine then Some (engine_message ''2025-01-01T00:00:00Z'')
      else if raw = frame_heartbeat then Some (heartbeat_message ''2025-01-01T00:00:00Z'')
      else if raw = frame_engine_late then Some (engine_message ''2025-01-01T00:03:10Z'')
      else if raw = frame_heartbeat_late then Some (heartbeat_message ''2025-01-01T00:03:10Z'')
      else if raw = frame_heartbeat_blank then Some (heartbeat_message [])
      else if raw = frame_constructor then Some constructor_message
      else None)"

text \<open>
  A trading state: the engine reported \<^verbatim>\<open>RUNNING\<close> and a heartbeat came, both at
  \<open>T0\<close>; the stale check ran at \<open>T1\<close>, three minutes later.
\<close>

definition state_T0 :: props where
  "state_T0 =
     onmessage example_parse T0 (onmessage example_parse T0 initialState frame_engine)
       frame_heartbeat"

definition state_T1 :: props where
  "state_T1 = staleCheck T1 state_T0"

text \<open>A lamp that is off, the devices store holding it, and its card.\<close>

definition lamp :: device where
  "lamp = [(''id'', JNum 1), (''hubitat_id'', JNum 101), (''name'', JStr ''lamp-1''),
           (''label'', JStr ''Living room lamp''), (''type'', JStr ''Generic Zigbee Switch''),
           (''state'', JObj [(''switch'', JStr ''off'')])]"

definition lamp_store :: DeviceState where
  "lamp_store = \<lparr>devices = [(JNum 1, lamp)], loading = False, error = None, lastUpdated = None\<rparr>"

definition lamp_card :: card where
  "lamp_card = \<lparr>card_loading = False, card_device = lamp, console = [], timeouts = []\<rparr>"

text \<open>
  Runs of the two streams: the page connects and the socket opens; then either the
  socket closes, or the page disconnects and the close event of the socket follows.
\<close>

definition trading_opened :: trading_client where
  "trading_opened =
     trading_run example_parse [(T0, Call_connect True), (T0, Socket_open 0)] trading_init"

definition trading_left :: trading_client where
  "trading_left =
     trading_run example_parse [(T0, Call_disconnect), (T0, Socket_close 0)] trading_opened"

definition websocket_opened :: websocket_client where
  "websocket_opened = websocket_run [Call_connect True, Socket_open 0] websocket_init"

definition websocket_dropped :: websocket_client where
  "websocket_dropped = websocket_run [Socket_close 0] websocket_opened"

definition websocket_left :: websocket_client where
  "websocket_left = websocket_run [Call_disconnect, Socket_close 0] websocket_opened"

section \<open>Properties of the trading store\<close>

subsection \<open>Property lists and handlers\<close>

lemma field_set_prop: "field (set_prop k v ps) k' = (if k' = k then v else field ps k')"
  by (simp add: field_def update_conv')

lemma field_Nil: "field [] k = Undefined"
  by (simp add: field_def)

lemma field_Cons: "field ((k', v) # ps) k = (if k = k' then v else field ps k)"
  by (simp add: field_def)

lemma spread_single: "spread s [(k, v)] = set_prop k v s"
  by (simp add: spread_def)

lemma set_prop_twice:
  assumes "k \<noteq> l"
  shows "set_prop l w (set_prop k v (set_prop l w (set_prop k v s)))
       = set_prop l w (set_prop k v s)"
proof -
  have "map_of (set_prop l w (set_prop k v s)) k = Some v"
    using assms by (simp add: update_conv')
  then have "set_prop k v (set_prop l w (set_prop k v s)) = set_prop l w (set_prop k v s)"
    by (rule update_triv)
  then show ?thesis by simp
qed

text \<open>The registered handlers, by their shapes.\<close>

lemma registered_cases:
  assumes "map_of TOPIC_HANDLERS t = Some h"
  shows "(\<exists>k. h = slice_handler k \<and> k \<noteq> ''lastUpdate'' \<and> k \<noteq> ''error''
              \<and> k \<noteq> ''connected'')
       \<or> (\<exists>k src. h = list_handler k src \<and> k \<noteq> ''lastUpdate'' \<and> k \<noteq> ''error''
              \<and> k \<noteq> ''connected'')
       \<or> h = currencies_handler \<or> h = capital_handler \<or> h = control_handler"
proof -
  from assms have "(t, h) \<in> set TOPIC_HANDLERS" by (rule map_of_SomeD)
  then show ?thesis unfolding TOPIC_HANDLERS_def by auto
qed

text \<open>A registered handler returns one slice, and never one of the bookkeeping fields.\<close>

lemma registered_update:
  assumes "map_of TOPIC_HANDLERS t = Some h" and "h s p = Inr u"
  shows "\<exists>k v. u = [(k, v)] \<and> k \<noteq> ''lastUpdate'' \<and> k \<noteq> ''error'' \<and> k \<noteq> ''connected''"
  using registered_cases [OF assms(1)] assms(2)
  by (auto simp: slice_handler_def list_handler_def currencies_handler_def capital_handler_def
      control_handler_def Let_def split: sum.splits if_splits)

text \<open>No registered handler reads the state.\<close>

lemma registered_stateless:
  assumes "map_of TOPIC_HANDLERS t = Some h"
  shows "h s p = h s' p"
  using registered_cases [OF assms(1)]
  by (auto simp: slice_handler_def list_handler_def currencies_handler_def capital_handler_def
      control_handler_def)

lemma registered_nonempty: "map_of TOPIC_HANDLERS t = Some h \<Longrightarrow> t \<noteq> []"
  by (auto simp: TOPIC_HANDLERS_def split: if_splits)

lemma registered_lookup: "map_of TOPIC_HANDLERS t = Some h \<Longrightarrow> lookup_handler t = Some h"
  by (simp add: lookup_handler_def)

text \<open>
  An accepted message of a registered topic: the state is rebuilt once, with the slice of
  the handler and \<^verbatim>\<open>lastUpdate\<close>.
\<close>

lemma handleMessage_registered:
  assumes reg: "map_of TOPIC_HANDLERS t = Some h"
    and m: "mtype m = ''mqtt''" "topic m = Some t" "truthy (payload m)"
    and ok: "handleMessage rt s m = Inr s'"
  shows "\<exists>k v. h s (payload m) = Inr [(k, v)] \<and> k \<noteq> ''lastUpdate'' \<and> k \<noteq> ''error''
           \<and> k \<noteq> ''connected''
           \<and> s' = set_prop ''lastUpdate''
                    (js_or (opt_prop (payload m) ''timestamp'') (JStr (now_iso rt)))
                    (set_prop k v s)"
proof -
  note t = registered_nonempty [OF reg] and lk = registered_lookup [OF reg]
  from ok m t lk obtain u where u: "h s (payload m) = Inr u"
    and s': "s' = set_prop ''lastUpdate''
                    (js_or (opt_prop (payload m) ''timestamp'') (JStr (now_iso rt)))
                    (spread s u)"
    by (auto simp: handleMessage_def Let_def split: sum.splits)
  from registered_update [OF reg u] obtain k v where
    "u = [(k, v)]" "k \<noteq> ''lastUpdate''" "k \<noteq> ''error''" "k \<noteq> ''connected''" by blast
  with u s' show ?thesis by (simp add: spread_single)
qed

text \<open>A frame that does not parse, or whose topic reads no handler, changes nothing.\<close>

lemma onmessage_unparsable: "parse raw = None \<Longrightarrow> onmessage parse rt s raw = s"
  by (simp add: onmessage_def)

lemma onmessage_no_handler:
  assumes "parse raw = Some m" "topic m = Some t" "lookup_handler t = None"
  shows "onmessage parse rt s raw = s"
  using assms by (simp add: onmessage_def handleMessage_def)

subsection \<open>The examples, evaluated\<close>

lemmas frame_defs = frame_engine_def frame_heartbeat_def frame_engine_late_def
  frame_heartbeat_late_def frame_heartbeat_blank_def frame_constructor_def

lemma example_parse_frames:
  "example_parse frame_engine = Some (engine_message ''2025-01-01T00:00:00Z'')"
  "example_parse frame_heartbeat = Some (heartbeat_message ''2025-01-01T00:00:00Z'')"
  "example_parse frame_engine_late = Some (engine_message ''2025-01-01T00:03:10Z'')"
  "example_parse frame_heartbeat_late = Some (heartbeat_message ''2025-01-01T00:03:10Z'')"
  "example_parse frame_heartbeat_blank = Some (heartbeat_message [])"
  "example_parse frame_constructor = Some constructor_message"
  by (simp_all add: example_parse_def frame_defs)

lemma topic_engine: "lookup_handler ''trader/services/engine'' = Some (slice_handler ''engine'')"
  by (simp add: lookup_handler_def TOPIC_HANDLERS_def)

lemma topic_heartbeat:
  "lookup_handler ''trader/services/heartbeat'' = Some (slice_handler ''heartbeat'')"
  by (simp add: lookup_handler_def TOPIC_HANDLERS_def)

lemma topic_constructor:
  "map_of TOPIC_HANDLERS ''constructor'' = None"
  "\<exists>h. lookup_handler ''constructor'' = Some h \<and> (\<forall>s p. h s p = Inr s)"
  by (simp_all add: lookup_handler_def TOPIC_HANDLERS_def Object_prototype_member_def)

lemma deliver_engine:
  "stamp \<noteq> [] \<Longrightarrow>
   handleMessage rt s (engine_message stamp) =
     Inr (set_prop ''lastUpdate'' (JStr stamp)
            (set_prop ''engine'' (payload (engine_message stamp)) s))"
  by (simp add: handleMessage_def engine_message_def topic_engine slice_handler_def
      spread_single js_or_def field_def Let_def)

lemma deliver_heartbeat:
  "handleMessage rt s (heartbeat_message stamp) =
     Inr (set_prop ''lastUpdate'' (if stamp = [] then JStr (now_iso rt) else JStr stamp)
            (set_prop ''heartbeat'' (payload (heartbeat_message stamp)) s))"
  by (simp add: handleMessage_def heartbeat_message_def topic_heartbeat slice_handler_def
      spread_single js_or_def field_def Let_def)

lemma onmessage_engine:
  assumes "example_parse raw = Some (engine_message stamp)" "stamp \<noteq> []"
  shows "onmessage example_parse rt s raw =
           set_prop ''lastUpdate'' (JStr stamp)
             (set_prop ''engine'' (payload (engine_message stamp)) s)"
  using assms by (simp add: onmessage_def deliver_engine)

lemma onmessage_heartbeat:
  assumes "example_parse raw = Some (heartbeat_message stamp)"
  shows "onmessage example_parse rt s raw =
           set_prop ''lastUpdate'' (if stamp = [] then JStr (now_iso rt) else JStr stamp)
             (set_prop ''heartbeat'' (payload (heartbeat_message stamp)) s)"
  using assms by (simp add: onmessage_def deliver_heartbeat)

lemmas late_heartbeat = onmessage_heartbeat [OF example_parse_frames(4)]

lemmas late_engine = onmessage_engine [OF example_parse_frames(3)]

lemmas blank_heartbeat = onmessage_heartbeat [OF example_parse_frames(5)]

lemma state_T0_value:
  "state_T0 =
     set_prop ''lastUpdate'' (JStr ''2025-01-01T00:00:00Z'')
       (set_prop ''heartbeat'' (payload (heartbeat_message ''2025-01-01T00:00:00Z''))
          (set_prop ''lastUpdate'' (JStr ''2025-01-01T00:00:00Z'')
             (set_prop ''engine'' (payload (engine_message ''2025-01-01T00:00:00Z''))
                initialState)))"
  by (simp add: state_T0_def onmessage_def example_parse_frames deliver_engine
      deliver_heartbeat)

lemma state_T0_fields:
  "field state_T0 ''lastUpdate'' = JStr ''2025-01-01T00:00:00Z''"
  "field state_T0 ''error'' = Null"
  "field state_T0 ''engine'' = payload (engine_message ''2025-01-01T00:00:00Z'')"
  "field state_T0 ''heartbeat'' = payload (heartbeat_message ''2025-01-01T00:00:00Z'')"
  by (simp_all add: state_T0_value field_set_prop) (simp_all add: initialState_def field_def)

lemma stale_at_T1: "isDataStale T1 (JStr ''2025-01-01T00:00:00Z'')"
  by (simp add: isDataStale_def T1_def at_time_def example_getTime_def STALE_THRESHOLD_MS_def)

lemma stale_at_T2: "isDataStale T2 (JStr ''2025-01-01T00:00:00Z'')"
  by (simp add: isDataStale_def T2_def at_time_def example_getTime_def STALE_THRESHOLD_MS_def)

lemma fresh_at_T2: "\<not> isDataStale T2 (JStr ''2025-01-01T00:03:10Z'')"
  by (simp add: isDataStale_def T2_def at_time_def example_getTime_def STALE_THRESHOLD_MS_def)

lemma state_T1_fields:
  "field state_T1 ''lastUpdate'' = JStr ''2025-01-01T00:00:00Z''"
  "field state_T1 ''error'' = JStr ''Trader offline - no heartbeat received''"
  "field state_T1 ''engine'' =
     JObj [(''status'', JStr ''DOWN''), (''mode'', JStr ''LIVE''),
           (''timestamp'', JStr ''2025-01-01T00:00:00Z'')]"
  "field state_T1 ''heartbeat'' = payload (heartbeat_message ''2025-01-01T00:00:00Z'')"
  by (simp_all add: state_T1_def staleCheck_def state_T0_fields stale_at_T1 field_set_prop
      engine_message_def)

subsection \<open>Staleness and the derived status\<close>

text \<open>
  Claim C1.  When engine or heartbeat data has been received and the timestamp of the last
  accepted message is older than the stale threshold (\<open>now - lastUpdate >
  STALE_THRESHOLD_MS\<close>), the derived trader status is \<open>OFFLINE\<close> with \<open>isStale\<close>
  true, whatever the engine slice holds, also a status \<^verbatim>\<open>RUNNING\<close>.
\<close>

theorem stale_status_is_offline:
  assumes "truthy (field s ''engine'') \<or> truthy (field s ''heartbeat'')"
    and "date_getTime rt (field s ''lastUpdate'') = Some t"
    and "now_ms rt - t > STALE_THRESHOLD_MS"
  shows "status (traderStatus rt s) = OFFLINE \<and> isStale (traderStatus rt s)"
  using assms by (auto simp: traderStatus_def isDataStale_def Let_def)

text \<open>
  The state of the example still holds the engine status \<^verbatim>\<open>RUNNING\<close> from \<open>T0\<close>;
  three minutes later the derived status is \<open>OFFLINE\<close>.
\<close>

theorem stale_status_is_offline_witness:
  "opt_prop (field state_T0 ''engine'') ''status'' = JStr ''RUNNING''
   \<and> status (traderStatus T1 state_T0) = OFFLINE
   \<and> isStale (traderStatus T1 state_T0)"
  using stale_status_is_offline [of state_T0 T1 1735689600000]
  by (simp add: state_T0_fields engine_message_def field_Nil field_Cons T1_def at_time_def
      example_getTime_def STALE_THRESHOLD_MS_def)

text \<open>
  Claim C2, as the spec states it, fails: after the stale check has run, a heartbeat with
  status \<^verbatim>\<open>ok\<close> and a fresh timestamp is accepted, \<^verbatim>\<open>lastUpdate\<close> is its
  timestamp and the data is not stale any more, but the derived status is \<open>STOPPED\<close>,
  not \<open>RUNNING\<close>: the stale check has written \<^verbatim>\<open>DOWN\<close> into the engine slice and
  a heartbeat does not touch that slice.
\<close>

theorem heartbeat_after_stale_check_not_running:
  "status (traderStatus T2 state_T1) = OFFLINE
   \<and> field (onmessage example_parse T2 state_T1 frame_heartbeat_late) ''lastUpdate''
       = JStr ''2025-01-01T00:03:10Z''
   \<and> \<not> isStale (traderStatus T2 (onmessage example_parse T2 state_T1 frame_heartbeat_late))
   \<and> status (traderStatus T2 (onmessage example_parse T2 state_T1 frame_heartbeat_late))
       = STOPPED"
  unfolding late_heartbeat
  by (simp add: traderStatus_def field_set_prop state_T1_fields stale_at_T2 fresh_at_T2
      heartbeat_message_def field_Nil field_Cons)

text \<open>
  Claim C2, amended.  An accepted message of a registered topic sets \<^verbatim>\<open>lastUpdate\<close>
  at once, in the same update, to the timestamp of its payload (to the current time when
  the payload has none).  When that timestamp is within the stale threshold and engine or
  heartbeat data is present, the derived status is not stale and not \<open>OFFLINE\<close>, and it
  is \<open>RUNNING\<close> exactly when the engine slice then holds the status \<^verbatim>\<open>RUNNING\<close> or
  \<^verbatim>\<open>ok\<close>.
\<close>

theorem accepted_message_refreshes:
  assumes reg: "map_of TOPIC_HANDLERS t = Some h"
    and m: "mtype m = ''mqtt''" "topic m = Some t" "truthy (payload m)"
    and ok: "handleMessage rt s m = Inr s'"
  shows "field s' ''lastUpdate'' = js_or (opt_prop (payload m) ''timestamp'') (JStr (now_iso rt))
       \<and> (truthy (field s' ''lastUpdate'')
            \<and> date_getTime rt (field s' ''lastUpdate'') = Some t1
            \<and> now_ms rt - t1 \<le> STALE_THRESHOLD_MS
            \<and> (truthy (field s' ''engine'') \<or> truthy (field s' ''heartbeat''))
          \<longrightarrow> \<not> isStale (traderStatus rt s') \<and> status (traderStatus rt s') \<noteq> OFFLINE
              \<and> (status (traderStatus rt s') = RUNNING \<longleftrightarrow>
                    opt_prop (field s' ''engine'') ''status'' = JStr ''RUNNING''
                    \<or> opt_prop (field s' ''engine'') ''status'' = JStr ''ok''))"
proof -
  from handleMessage_registered [OF reg m ok] obtain k v where
    s': "s' = set_prop ''lastUpdate''
                (js_or (opt_prop (payload m) ''timestamp'') (JStr (now_iso rt))) (set_prop k v s)"
    by blast
  have 1: "field s' ''lastUpdate''
             = js_or (opt_prop (payload m) ''timestamp'') (JStr (now_iso rt))"
    by (simp add: s' field_set_prop)
  have 2: "\<not> isStale (traderStatus rt s') \<and> status (traderStatus rt s') \<noteq> OFFLINE
              \<and> (status (traderStatus rt s') = RUNNING \<longleftrightarrow>
                    opt_prop (field s' ''engine'') ''status'' = JStr ''RUNNING''
                    \<or> opt_prop (field s' ''engine'') ''status'' = JStr ''ok'')"
    if "truthy (field s' ''lastUpdate'')" "date_getTime rt (field s' ''lastUpdate'') = Some t1"
       "now_ms rt - t1 \<le> STALE_THRESHOLD_MS"
       "truthy (field s' ''engine'') \<or> truthy (field s' ''heartbeat'')"
  proof -
    have "\<not> isDataStale rt (field s' ''lastUpdate'')" using that by (simp add: isDataStale_def)
    with that(4) show ?thesis by (auto simp: traderStatus_def Let_def)
  qed
  from 1 2 show ?thesis by blast
qed

text \<open>
  After the stale check of the example, an engine message with status \<^verbatim>\<open>RUNNING\<close>
  and a fresh timestamp brings the derived status back to \<open>RUNNING\<close> at once.
\<close>

theorem accepted_message_refreshes_witness:
  "status (traderStatus T2 state_T1) = OFFLINE
   \<and> field (onmessage example_parse T2 state_T1 frame_engine_late) ''lastUpdate''
       = JStr ''2025-01-01T00:03:10Z''
   \<and> \<not> isStale (traderStatus T2 (onmessage example_parse T2 state_T1 frame_engine_late))
   \<and> status (traderStatus T2 (onmessage example_parse T2 state_T1 frame_engine_late))
       = RUNNING"
proof -
  let ?m = "engine_message ''2025-01-01T00:03:10Z''"
  let ?s' = "onmessage example_parse T2 state_T1 frame_engine_late"
  have s': "?s' = set_prop ''lastUpdate'' (JStr ''2025-01-01T00:03:10Z'')
                    (set_prop ''engine'' (payload ?m) state_T1)"
    by (simp add: late_engine)
  have reg: "map_of TOPIC_HANDLERS ''trader/services/engine'' = Some (slice_handler ''engine'')"
    by (simp add: TOPIC_HANDLERS_def)
  have m: "mtype ?m = ''mqtt''" "topic ?m = Some ''trader/services/engine''"
    "truthy (payload ?m)"
    by (simp_all add: engine_message_def)
  have ok: "handleMessage T2 state_T1 ?m = Inr ?s'"
    by (simp add: s' deliver_engine)
  have before: "status (traderStatus T2 state_T1) = OFFLINE"
    by (simp add: traderStatus_def state_T1_fields stale_at_T2 heartbeat_message_def)
  have fresh: "truthy (field ?s' ''lastUpdate'')"
    "date_getTime T2 (field ?s' ''lastUpdate'') = Some 1735689790000"
    "now_ms T2 - 1735689790000 \<le> STALE_THRESHOLD_MS"
    "truthy (field ?s' ''engine'')"
    "opt_prop (field ?s' ''engine'') ''status'' = JStr ''RUNNING''"
    unfolding s'
    by (simp_all add: field_set_prop T2_def at_time_def example_getTime_def
        STALE_THRESHOLD_MS_def engine_message_def field_Nil field_Cons)
  from accepted_message_refreshes [OF reg m ok, of 1735689790000] fresh before
  show ?thesis by (simp add: js_or_def engine_message_def field_Nil field_Cons)
qed

text \<open>
  Claim C3, as the spec states it, fails: the stale check of the example overwrites the
  explicit status of the engine slice, \<^verbatim>\<open>RUNNING\<close>, with \<^verbatim>\<open>DOWN\<close>, and writes
  the error flag.
\<close>

theorem staleCheck_overwrites_engine_status:
  "truthy (field state_T0 ''lastUpdate'') \<and> isDataStale T1 (field state_T0 ''lastUpdate'')
   \<and> opt_prop (field state_T0 ''engine'') ''status'' = JStr ''RUNNING''
   \<and> opt_prop (field (staleCheck T1 state_T0) ''engine'') ''status'' = JStr ''DOWN''
   \<and> field state_T0 ''error'' = Null
   \<and> field (staleCheck T1 state_T0) ''error'' = JStr ''Trader offline - no heartbeat received''"
  by (simp add: state_T0_fields stale_at_T1 staleCheck_def field_set_prop engine_message_def
      field_Nil field_Cons)

text \<open>
  Claim C3, amended.  A tick of the stale check that finds the data stale sets the status
  of the engine slice to \<^verbatim>\<open>DOWN\<close> (when there is an engine slice) and the error flag
  to the offline message; it leaves every other field of the state, so every other slice,
  and every other attribute of the engine slice as they were.
\<close>

theorem staleCheck_frame:
  assumes "truthy (field s ''lastUpdate'')" and "isDataStale rt (field s ''lastUpdate'')"
  shows "field (staleCheck rt s) ''error'' = JStr ''Trader offline - no heartbeat received''
       \<and> field (staleCheck rt s) ''engine'' =
           (if truthy (field s ''engine'')
            then JObj (set_prop ''status'' (JStr ''DOWN'') (own_entries (field s ''engine'')))
            else Null)
       \<and> (\<forall>k. k \<noteq> ''engine'' \<and> k \<noteq> ''error'' \<longrightarrow> field (staleCheck rt s) k = field s k)
       \<and> (\<forall>a. a \<noteq> ''status'' \<longrightarrow>
            field (set_prop ''status'' (JStr ''DOWN'') (own_entries (field s ''engine''))) a
            = field (own_entries (field s ''engine'')) a)"
  using assms by (simp add: staleCheck_def field_set_prop)

theorem staleCheck_frame_witness:
  "field (staleCheck T1 state_T0) ''error'' = JStr ''Trader offline - no heartbeat received''
   \<and> field (staleCheck T1 state_T0) ''heartbeat'' = field state_T0 ''heartbeat''
   \<and> field (staleCheck T1 state_T0) ''lastUpdate'' = field state_T0 ''lastUpdate''
   \<and> opt_prop (field (staleCheck T1 state_T0) ''engine'') ''mode'' = JStr ''LIVE''"
proof -
  have "truthy (field state_T0 ''lastUpdate'')" "isDataStale T1 (field state_T0 ''lastUpdate'')"
    by (simp_all add: state_T0_fields stale_at_T1)
  from staleCheck_frame [OF this]
  have "field (staleCheck T1 state_T0) ''error'' = JStr ''Trader offline - no heartbeat received''"
    and e: "field (staleCheck T1 state_T0) ''engine'' =
           (if truthy (field state_T0 ''engine'')
            then JObj (set_prop ''status'' (JStr ''DOWN'') (own_entries (field state_T0 ''engine'')))
            else Null)"
    and "field (staleCheck T1 state_T0) ''heartbeat'' = field state_T0 ''heartbeat''"
    and "field (staleCheck T1 state_T0) ''lastUpdate'' = field state_T0 ''lastUpdate''"
    by simp_all
  moreover have "opt_prop (field (staleCheck T1 state_T0) ''engine'') ''mode'' = JStr ''LIVE''"
    unfolding e by (simp add: state_T0_fields engine_message_def field_Nil field_Cons)
  ultimately show ?thesis by simp
qed

subsection \<open>Message handling\<close>

text \<open>
  Claim C5 (the code departs from it).  After the stale check of the example has set the
  error flag, a heartbeat is accepted: its slice and \<^verbatim>\<open>lastUpdate\<close> are written in
  one update, but the error flag is not cleared.
\<close>

theorem accepted_message_keeps_error:
  "field state_T1 ''error'' = JStr ''Trader offline - no heartbeat received''
   \<and> field (onmessage example_parse T2 state_T1 frame_heartbeat_late) ''heartbeat''
       = payload (heartbeat_message ''2025-01-01T00:03:10Z'')
   \<and> field (onmessage example_parse T2 state_T1 frame_heartbeat_late) ''lastUpdate''
       = JStr ''2025-01-01T00:03:10Z''
   \<and> field (onmessage example_parse T2 state_T1 frame_heartbeat_late) ''error''
       = JStr ''Trader offline - no heartbeat received''"
  unfolding late_heartbeat by (simp add: field_set_prop state_T1_fields)

text \<open>
  Claim C8 (the code departs from it).  The topic \<^verbatim>\<open>constructor\<close> has no registered
  reducer, yet its frame is handled: the lookup reads \<^verbatim>\<open>Object.prototype.constructor\<close>,
  and the state gets the timestamp of the payload as \<^verbatim>\<open>lastUpdate\<close>.
\<close>

theorem inherited_topic_changes_state:
  "example_parse frame_constructor = Some constructor_message
   \<and> topic constructor_message = Some ''constructor''
   \<and> map_of TOPIC_HANDLERS ''constructor'' = None
   \<and> field state_T0 ''lastUpdate'' = JStr ''2025-01-01T00:00:00Z''
   \<and> field (onmessage example_parse T1 state_T0 frame_constructor) ''lastUpdate''
       = JStr ''2025-01-01T00:03:00Z''"
  by (simp add: example_parse_frames onmessage_def handleMessage_def constructor_message_def
      lookup_handler_def TOPIC_HANDLERS_def Object_prototype_member_def js_or_def
      field_set_prop state_T0_fields field_Nil field_Cons)

text \<open>
  Claim C10, as the spec states it, fails: a heartbeat whose payload carries the timestamp
  field \<^verbatim>\<open>""\<close> gets the current time as \<^verbatim>\<open>lastUpdate\<close>, so its second delivery,
  three minutes after the first, changes the state again.
\<close>

theorem replay_with_blank_timestamp_changes_state:
  "example_parse frame_heartbeat_blank = Some (heartbeat_message [])
   \<and> opt_prop (payload (heartbeat_message [])) ''timestamp'' = JStr []
   \<and> field (onmessage example_parse T0 initialState frame_heartbeat_blank) ''lastUpdate''
       = JStr ''2025-01-01T00:00:00Z''
   \<and> field (onmessage example_parse T1
              (onmessage example_parse T0 initialState frame_heartbeat_blank)
              frame_heartbeat_blank) ''lastUpdate''
       = JStr ''2025-01-01T00:03:00Z''"
  unfolding blank_heartbeat
  by (simp add: example_parse_frames field_set_prop heartbeat_message_def field_Nil field_Cons
      T0_def T1_def at_time_def)

text \<open>
  Claim C10, amended.  For every topic with a registered handler and every payload whose
  timestamp field is not empty (is truthy), delivering the same frame a second time, at
  whatever time, leaves the state as the first delivery left it.
\<close>

theorem replay_is_idempotent:
  assumes p: "parse raw = Some m" and t: "topic m = Some t"
    and reg: "map_of TOPIC_HANDLERS t = Some h"
    and ts: "truthy (opt_prop (payload m) ''timestamp'')"
  shows "onmessage parse rt' (onmessage parse rt s raw) raw = onmessage parse rt s raw"
proof (cases "handleMessage rt s m")
  case (Inl e)
  then have 1: "onmessage parse rt s raw = s" using p by (simp add: onmessage_def)
  note lk = registered_lookup [OF reg]
  from Inl t lk have "h s (payload m) = Inl e"
    by (auto simp: handleMessage_def Let_def split: sum.splits if_splits)
  then have "handleMessage rt' s m = Inl e \<or> handleMessage rt' s m = Inr s"
    using t lk by (auto simp: handleMessage_def)
  then show ?thesis using 1 p by (auto simp: onmessage_def)
next
  case (Inr s1)
  then have 1: "onmessage parse rt s raw = s1" using p by (simp add: onmessage_def)
  show ?thesis
  proof (cases "mtype m = ''mqtt'' \<and> truthy (payload m)")
    case False
    then have "handleMessage rt s m = Inr s" "handleMessage rt' s m = Inr s"
      using t by (auto simp: handleMessage_def)
    with Inr 1 p show ?thesis by (simp add: onmessage_def)
  next
    case True
    then have m: "mtype m = ''mqtt''" "topic m = Some t" "truthy (payload m)" using t by auto
    from handleMessage_registered [OF reg m Inr] obtain k v where
      h: "h s (payload m) = Inr [(k, v)]" and k: "k \<noteq> ''lastUpdate''"
      and s1: "s1 = set_prop ''lastUpdate''
                (js_or (opt_prop (payload m) ''timestamp'') (JStr (now_iso rt))) (set_prop k v s)"
      by blast
    have h1: "h s1 (payload m) = Inr [(k, v)]"
      using registered_stateless [OF reg, of s1 "payload m" s] h by simp
    note ne = registered_nonempty [OF reg] and lk = registered_lookup [OF reg]
    have "handleMessage rt' s1 m = Inr (set_prop ''lastUpdate''
            (js_or (opt_prop (payload m) ''timestamp'') (JStr (now_iso rt'))) (set_prop k v s1))"
      using m h1 ne lk by (simp add: handleMessage_def spread_single)
    also have "js_or (opt_prop (payload m) ''timestamp'') (JStr (now_iso rt'))
        = js_or (opt_prop (payload m) ''timestamp'') (JStr (now_iso rt))"
      using ts by (simp add: js_or_def)
    also have "set_prop ''lastUpdate''
         (js_or (opt_prop (payload m) ''timestamp'') (JStr (now_iso rt))) (set_prop k v s1) = s1"
      unfolding s1 using k by (rule set_prop_twice)
    finally show ?thesis using 1 p by (simp add: onmessage_def)
  qed
qed

theorem replay_is_idempotent_witness:
  "onmessage example_parse T1 (onmessage example_parse T0 initialState frame_heartbeat)
     frame_heartbeat
   = onmessage example_parse T0 initialState frame_heartbeat"
  using replay_is_idempotent [of example_parse frame_heartbeat
      "heartbeat_message ''2025-01-01T00:00:00Z''" "''trader/services/heartbeat''"
      "slice_handler ''heartbeat''" T1 T0 initialState]
  by (simp add: example_parse_frames heartbeat_message_def TOPIC_HANDLERS_def field_Nil field_Cons)

section \<open>Properties of the devices store and of the device card\<close>

text \<open>
  Claim C4, as the spec states it, fails: after the optimistic write of \<^verbatim>\<open>on\<close> and
  the feed update of the attribute \<^verbatim>\<open>switch\<close> to \<^verbatim>\<open>off\<close>, the lamp of the
  example still carries \<^verbatim>\<open>switch_state: 'on'\<close>, which only the optimistic write
  sets, and the card, which reads \<^verbatim>\<open>switch_state\<close> first, still shows it on.
\<close>

theorem feed_update_leaves_switch_state:
  "map_of (devices (updateDeviceState ''lamp-1'' ''switch'' (JStr ''off'')
                      (setDeviceSwitch (JNum 1) ''on'' lamp_store))) (JNum 1)
   = Some [(''id'', JNum 1), (''hubitat_id'', JNum 101), (''name'', JStr ''lamp-1''),
           (''label'', JStr ''Living room lamp''), (''type'', JStr ''Generic Zigbee Switch''),
           (''state'', JObj [(''switch'', JStr ''off'')]), (''switch_state'', JStr ''on'')]
   \<and> isOn [(''id'', JNum 1), (''hubitat_id'', JNum 101), (''name'', JStr ''lamp-1''),
           (''label'', JStr ''Living room lamp''), (''type'', JStr ''Generic Zigbee Switch''),
           (''state'', JObj [(''switch'', JStr ''off'')]), (''switch_state'', JStr ''on'')]"
  by (simp add: lamp_store_def lamp_def field_def setDeviceSwitch_def updateDeviceState_def
      isOn_def)

text \<open>
  Claim C4, amended.  For every device \<open>d\<close> of the store, kept under its id: after an
  optimistic write setting its switch to \<^verbatim>\<open>on\<close>, followed by a feed update of the
  attribute \<^verbatim>\<open>switch\<close> to \<^verbatim>\<open>off\<close> whose device id resolves to \<open>d\<close> (\<open>d\<close> is
  the first device of the map with that label or name), the attribute \<^verbatim>\<open>switch\<close> in
  the state bag of \<open>d\<close> is \<^verbatim>\<open>off\<close>; the property \<^verbatim>\<open>switch_state\<close> written by
  the optimistic write stays \<^verbatim>\<open>on\<close>, so the card still derives \<open>isOn\<close>.
\<close>

theorem feed_update_after_optimistic_write:
  assumes d: "map_of (devices st) did = Some d" and id: "field d ''id'' = did"
    and st1: "st1 = setDeviceSwitch did ''on'' st"
    and target: "find_target name (devices st1) = map_of (devices st1) did"
    and st2: "st2 = updateDeviceState name ''switch'' (JStr ''off'') st1"
  shows "\<exists>d2. map_of (devices st2) did = Some d2
           \<and> opt_prop (field d2 ''state'') ''switch'' = JStr ''off''
           \<and> field d2 ''switch_state'' = JStr ''on''
           \<and> isOn d2"
proof -
  define d1 where "d1 = set_prop ''state''
                 (JObj (set_prop ''switch'' (JStr ''on'') (own_entries (field d ''state''))))
                 (set_prop ''switch_state'' (JStr ''on'') d)"
  have 1: "map_of (devices st1) did = Some d1"
    using d by (simp add: st1 setDeviceSwitch_def d1_def update_conv')
  have id1: "field d1 ''id'' = did" using id by (simp add: d1_def field_set_prop)
  define d2 where "d2 = set_prop ''state''
                  (JObj (set_prop ''switch'' (JStr ''off'') (own_entries (field d1 ''state''))))
                  d1"
  have "map_of (devices st2) did = Some d2"
    using target 1 id1 by (simp add: st2 updateDeviceState_def Let_def d2_def update_conv')
  moreover have "opt_prop (field d2 ''state'') ''switch'' = JStr ''off''"
    by (simp add: d2_def field_set_prop)
  moreover have "field d2 ''switch_state'' = JStr ''on''"
    by (simp add: d2_def d1_def field_set_prop)
  ultimately show ?thesis by (auto simp: isOn_def)
qed

theorem feed_update_after_optimistic_write_witness:
  "\<exists>d2. map_of (devices (updateDeviceState ''lamp-1'' ''switch'' (JStr ''off'')
                           (setDeviceSwitch (JNum 1) ''on'' lamp_store))) (JNum 1) = Some d2
           \<and> opt_prop (field d2 ''state'') ''switch'' = JStr ''off''
           \<and> field d2 ''switch_state'' = JStr ''on''
           \<and> isOn d2"
  using feed_update_after_optimistic_write [of lamp_store "JNum 1" lamp
      "setDeviceSwitch (JNum 1) ''on'' lamp_store" "''lamp-1''"
      "updateDeviceState ''lamp-1'' ''switch'' (JStr ''off'')
         (setDeviceSwitch (JNum 1) ''on'' lamp_store)"]
  by (simp add: lamp_store_def lamp_def field_def setDeviceSwitch_def)

text \<open>
  Claim C9, as the spec states it, fails: the toggle of the lamp, which is off, issues
  \<^verbatim>\<open>turnOn\<close> and writes nothing before the command settles; when the command
  rejects, the store is what it was, so the lamp is still off there, and the failure is
  only logged, the error field of the store stays empty.
\<close>

theorem rejected_toggle_leaves_store:
  "handleToggle_call lamp_card
     = (lamp_card\<lparr>card_loading := True\<rparr>, Some (TurnOn (JNum 1), ''on''))
   \<and> snd (handleToggle_settled (Rejected (JStr ''503'')) ''on''
            (lamp_card\<lparr>card_loading := True\<rparr>, lamp_store)) = lamp_store
   \<and> map_of (devices lamp_store) (JNum 1) = Some lamp
   \<and> opt_prop (field lamp ''state'') ''switch'' = JStr ''off''
   \<and> \<not> isOn lamp
   \<and> error lamp_store = None"
  by (simp add: handleToggle_call_def handleToggle_settled_def lamp_card_def lamp_def
      lamp_store_def isOn_def card_level_def field_def)

text \<open>
  Claim C9, amended.  A toggle that starts fixes the new value, the opposite of what the
  card shows, and issues the command without writing the store.  When the command
  rejects, the store is left as it is (nothing was written, nothing is rolled back), the
  failure is logged on the console and the card stops loading.  When the command
  resolves, and only then, the new value is written to the device in the store and the
  refresh is scheduled after 1500 ms.
\<close>

theorem toggle_writes_after_success:
  assumes "handleToggle_call c = (c1, Some (cmd, newState))"
  shows "newState = (if isOn (card_device c) then ''off'' else ''on'')
       \<and> handleToggle_settled (Rejected e) newState (c1, st)
           = (c1\<lparr>console := console c @ [(''Failed to toggle device:'', e)],
                 card_loading := False\<rparr>, st)
       \<and> handleToggle_settled Resolved newState (c1, st)
           = (c1\<lparr>timeouts := timeouts c @ [1500], card_loading := False\<rparr>,
              setDeviceSwitch (field (card_device c) ''id'') newState st)"
  using assms
  by (auto simp: handleToggle_call_def handleToggle_settled_def Let_def split: if_splits)

theorem toggle_writes_after_success_witness:
  "handleToggle_settled (Rejected (JStr ''503'')) ''on''
       (lamp_card\<lparr>card_loading := True\<rparr>, lamp_store)
     = (lamp_card\<lparr>console := [(''Failed to toggle device:'', JStr ''503'')],
                   card_loading := False\<rparr>, lamp_store)
   \<and> handleToggle_settled Resolved ''on'' (lamp_card\<lparr>card_loading := True\<rparr>, lamp_store)
     = (lamp_card\<lparr>timeouts := [1500], card_loading := False\<rparr>,
        setDeviceSwitch (JNum 1) ''on'' lamp_store)"
  using toggle_writes_after_success [of lamp_card "lamp_card\<lparr>card_loading := True\<rparr>"
      "TurnOn (JNum 1)" "''on''" "JStr ''503''" lamp_store]
  by (simp add: handleToggle_call_def lamp_card_def lamp_def isOn_def card_level_def field_def)

section \<open>Properties of the connection managers\<close>

subsection \<open>Pending reconnect timers\<close>

lemma distinct_singleton_set:
  assumes "distinct xs" "set xs = {x}"
  shows "xs = [x]"
proof -
  from assms have "length xs = 1" by (metis distinct_card is_singletonI is_singleton_altdef)
  with assms(2) show ?thesis by (cases xs) auto
qed

lemma pending_set: "set (pending cb c) = {(i, d). (i, cb, d) \<in> set (timers c)}"
  by (auto simp: pending_def image_iff)

lemma pending_distinct:
  assumes "distinct (map fst (timers c))"
  shows "distinct (map fst (pending cb c))"
proof -
  have "map fst (pending cb c) = map fst (filter (\<lambda>(i, cb', d). cb' = cb) (timers c))"
    by (simp add: pending_def case_prod_unfold comp_def)
  then show ?thesis using assms by (simp add: distinct_map_filter)
qed

text \<open>Under the invariant, the list of pending reconnect timers has at most one entry.\<close>

lemma timers_ok_pending:
  assumes "timers_ok c"
  shows "pending ReconnectCb c = (case reconnectTimer c of None \<Rightarrow> [] | Some i \<Rightarrow> [(i, 5000)])"
proof (cases "reconnectTimer c")
  case None
  then have "set (pending ReconnectCb c) = {}"
    using assms by (auto simp: pending_set timers_ok_def)
  with None show ?thesis by simp
next
  case (Some i)
  then have "set (pending ReconnectCb c) = {(i, 5000)}"
    using assms by (auto simp: pending_set timers_ok_def)
  moreover have "distinct (pending ReconnectCb c)"
    using pending_distinct [of c ReconnectCb] assms by (auto simp: timers_ok_def distinct_map)
  ultimately have "pending ReconnectCb c = [(i, 5000)]" by (rule distinct_singleton_set [rotated])
  with Some show ?thesis by simp
qed

lemma timers_ok_length: "timers_ok c \<Longrightarrow> length (pending ReconnectCb c) \<le> 1"
  by (simp add: timers_ok_pending split: option.splits)

lemma timers_ok_map_of:
  assumes "timers_ok c" "reconnectTimer c = Some i"
  shows "map_of (timers c) i = Some (ReconnectCb, 5000)"
  using assms by (auto simp: timers_ok_def)

lemma fired_reconnect:
  assumes "timers_ok c" "map_of (timers c) i = Some (ReconnectCb, d)"
  shows "reconnectTimer c = Some i \<and> d = 5000"
  using assms by (auto simp: timers_ok_def dest: map_of_SomeD)

subsection \<open>The operations on timers keep the invariant\<close>

lemma timers_ok_setTimer:
  assumes "timers_ok c" "cb \<noteq> ReconnectCb"
  shows "timers_ok (setTimer cb d c)"
  using assms by (fastforce simp: timers_ok_def setTimer_def less_Suc_eq)

lemma timers_ok_schedule:
  assumes "timers_ok c" "reconnectTimer c = None"
  shows "timers_ok ((setTimer ReconnectCb 5000 c)\<lparr>reconnectTimer := Some (timer_seq c)\<rparr>)"
  using assms by (fastforce simp: timers_ok_def setTimer_def less_Suc_eq)

lemma timers_ok_clear_reconnect:
  assumes "timers_ok c"
  shows "timers_ok (clear_reconnectTimer c)"
  using assms
  by (auto simp: timers_ok_def clear_reconnectTimer_def clearTimer_def distinct_map_filter
      split: option.splits)

lemma timers_ok_clear_other:
  assumes "timers_ok c" "\<forall>cb' d. (j, cb', d) \<in> set (timers c) \<longrightarrow> cb' \<noteq> ReconnectCb"
  shows "timers_ok (clearTimer j c)"
  using assms
  by (auto simp: timers_ok_def clearTimer_def distinct_map_filter) blast

lemma interval_ok_setTimer:
  assumes "interval_ok cb v c" "timers_ok c"
  shows "interval_ok cb v (setTimer cb' d c)"
  using assms by (auto simp: interval_ok_def setTimer_def less_Suc_eq)

lemma interval_ok_clear_reconnectTimer:
  assumes "interval_ok cb v c"
  shows "interval_ok cb v (clear_reconnectTimer c)"
  using assms
  by (auto simp: interval_ok_def clear_reconnectTimer_def clearTimer_def split: option.splits)

lemma interval_ok_new:
  assumes "timers_ok c"
  shows "interval_ok cb (Some (timer_seq c)) (setTimer cb d c)"
  using assms by (fastforce simp: interval_ok_def setTimer_def timers_ok_def)

subsection \<open>The trading stream keeps the invariant\<close>

lemma trading_inv_store: "trading_inv (c\<lparr>store := s\<rparr>) = trading_inv c"
  by (simp add: trading_inv_def timers_ok_def interval_ok_def)

lemma trading_inv_sockets: "trading_inv (c\<lparr>sockets := s\<rparr>) = trading_inv c"
  by (simp add: trading_inv_def timers_ok_def interval_ok_def)

lemma trading_inv_connect: "trading_inv c \<Longrightarrow> trading_inv (trading_connect ok c)"
  by (simp add: trading_inv_def trading_connect_def new_WebSocket_def Let_def timers_ok_def
      interval_ok_def)

lemma trading_inv_startStaleCheck: "trading_inv c \<Longrightarrow> trading_inv (startStaleCheck c)"
proof -
  assume inv: "trading_inv c"
  show ?thesis
  proof (cases "staleCheckTimer c")
    case (Some j)
    then show ?thesis using inv by (simp add: startStaleCheck_def)
  next
    case None
    have 1: "timers_ok (setTimer StaleCheckCb 30000 c)"
      using inv by (simp add: trading_inv_def timers_ok_setTimer)
    have 2: "interval_ok StaleCheckCb (Some (timer_seq c)) (setTimer StaleCheckCb 30000 c)"
      using inv by (simp add: trading_inv_def interval_ok_new)
    from 1 2 None show ?thesis
      by (simp add: startStaleCheck_def trading_inv_def timers_ok_def interval_ok_def)
  qed
qed

lemma trading_inv_stopStaleCheck: "trading_inv c \<Longrightarrow> trading_inv (stopStaleCheck c)"
proof -
  assume inv: "trading_inv c"
  show ?thesis
  proof (cases "staleCheckTimer c")
    case None
    then show ?thesis using inv by (simp add: stopStaleCheck_def)
  next
    case (Some j)
    with inv have "\<forall>cb' d. (j, cb', d) \<in> set (timers c) \<longrightarrow> cb' \<noteq> ReconnectCb"
      by (auto simp: trading_inv_def interval_ok_def)
    with inv have "timers_ok (clearTimer j c)"
      by (simp add: trading_inv_def timers_ok_clear_other)
    with Some show ?thesis
      by (simp add: stopStaleCheck_def trading_inv_def timers_ok_def interval_ok_def)
  qed
qed

lemma trading_inv_clear_reconnectTimer:
  "trading_inv c \<Longrightarrow> trading_inv (clear_reconnectTimer c)"
proof -
  assume inv: "trading_inv c"
  have "staleCheckTimer (clear_reconnectTimer c) = staleCheckTimer c"
    by (simp add: clear_reconnectTimer_def clearTimer_def split: option.splits)
  then show ?thesis
    using inv
    by (simp add: trading_inv_def timers_ok_clear_reconnect interval_ok_clear_reconnectTimer)
qed

lemma trading_inv_close_ws: "trading_inv c \<Longrightarrow> trading_inv (close_ws c)"
  by (simp add: trading_inv_def close_ws_def timers_ok_def interval_ok_def split: option.splits)

lemma trading_inv_disconnect: "trading_inv c \<Longrightarrow> trading_inv (trading_disconnect c)"
proof -
  assume "trading_inv c"
  then have "trading_inv (close_ws (clear_reconnectTimer (stopStaleCheck c)))"
    by (intro trading_inv_close_ws trading_inv_clear_reconnectTimer trading_inv_stopStaleCheck)
  then show ?thesis by (simp add: trading_disconnect_def trading_inv_store)
qed

lemma trading_inv_onclose: "trading_inv c \<Longrightarrow> trading_inv (trading_onclose c)"
proof -
  assume inv: "trading_inv c"
  show ?thesis
  proof (cases "reconnectTimer c")
    case (Some i)
    then show ?thesis using inv by (simp add: trading_onclose_def Let_def trading_inv_store)
  next
    case None
    let ?c1 = "c\<lparr>store := set_prop ''connected'' (JBool False) (store c)\<rparr>"
    have inv1: "trading_inv ?c1" using inv by (simp add: trading_inv_store)
    have n1: "reconnectTimer ?c1 = None" using None by simp
    have 1: "timers_ok ((setTimer ReconnectCb 5000 ?c1)\<lparr>reconnectTimer := Some (timer_seq ?c1)\<rparr>)"
      using inv1 n1 unfolding trading_inv_def by (intro timers_ok_schedule) auto
    have 2: "interval_ok StaleCheckCb (staleCheckTimer ?c1) (setTimer ReconnectCb 5000 ?c1)"
      using inv1 unfolding trading_inv_def by (intro interval_ok_setTimer) auto
    from 1 2 None show ?thesis
      by (simp add: trading_onclose_def Let_def trading_inv_def interval_ok_def setTimer_def)
  qed
qed

lemma trading_inv_onopen: "trading_inv c \<Longrightarrow> trading_inv (trading_onopen c)"
  by (simp add: trading_onopen_def trading_inv_startStaleCheck trading_inv_store)

lemma trading_inv_timer: "trading_inv c \<Longrightarrow> trading_inv (trading_timer rt i ok c)"
proof -
  assume inv: "trading_inv c"
  show ?thesis
  proof (cases "map_of (timers c) i")
    case None
    then show ?thesis using inv by (simp add: trading_timer_def)
  next
    case (Some p)
    obtain cb d where p: "p = (cb, d)" by (cases p)
    show ?thesis
    proof (cases cb)
      case ReconnectCb
      with Some p inv have r: "reconnectTimer c = Some i"
        using fired_reconnect [of c i d] by (simp add: trading_inv_def)
      then have "(clearTimer i c)\<lparr>reconnectTimer := None\<rparr> = clear_reconnectTimer c"
        by (simp add: clear_reconnectTimer_def)
      then show ?thesis using Some p ReconnectCb inv
        by (simp add: trading_timer_def trading_inv_connect trading_inv_clear_reconnectTimer)
    next
      case StaleCheckCb
      then show ?thesis using Some p inv by (simp add: trading_timer_def trading_inv_store)
    next
      case PingCb
      then show ?thesis using Some p inv by (simp add: trading_timer_def)
    qed
  qed
qed

lemma trading_inv_step: "trading_inv c \<Longrightarrow> trading_inv (trading_step parse rt ev c)"
  by (cases ev)
     (simp_all add: trading_inv_connect trading_inv_disconnect trading_inv_onopen
        trading_inv_onclose trading_inv_timer trading_inv_store trading_inv_sockets
        trading_onerror_def)

lemma trading_inv_run: "trading_inv c \<Longrightarrow> trading_inv (trading_run parse evs c)"
  unfolding trading_run_def
  by (induction evs arbitrary: c) (auto simp: trading_inv_step)

lemma trading_inv_init: "trading_inv trading_init"
  by (simp add: trading_inv_def timers_ok_def interval_ok_def trading_init_def)

subsection \<open>The device stream keeps the invariant\<close>

lemma websocket_inv_store: "websocket_inv (c\<lparr>store := s\<rparr>) = websocket_inv c"
  by (simp add: websocket_inv_def timers_ok_def interval_ok_def)

lemma websocket_inv_sockets: "websocket_inv (c\<lparr>sockets := s\<rparr>) = websocket_inv c"
  by (simp add: websocket_inv_def timers_ok_def interval_ok_def)

lemma websocket_inv_connect: "websocket_inv c \<Longrightarrow> websocket_inv (websocket_connect ok c)"
  by (simp add: websocket_inv_def websocket_connect_def new_WebSocket_def Let_def timers_ok_def
      interval_ok_def)

lemma websocket_inv_onopen: "websocket_inv c \<Longrightarrow> websocket_inv (websocket_onopen c)"
proof -
  assume inv: "websocket_inv c"
  let ?c1 = "c\<lparr>store := (store c)\<lparr>connected := True, ws_error := None,
                                   reconnecting := False\<rparr>\<rparr>"
  have inv1: "websocket_inv ?c1" using inv by (simp add: websocket_inv_store)
  have 1: "timers_ok (setTimer PingCb 30000 ?c1)"
    using inv1 by (simp add: websocket_inv_def timers_ok_setTimer)
  have 2: "interval_ok PingCb (Some (timer_seq ?c1)) (setTimer PingCb 30000 ?c1)"
    using inv1 unfolding websocket_inv_def by (intro interval_ok_new) simp
  from 1 2 show ?thesis
    by (simp add: websocket_onopen_def Let_def websocket_inv_def timers_ok_def interval_ok_def)
qed

lemma websocket_inv_clear_pingInterval:
  "websocket_inv c \<Longrightarrow> websocket_inv (clear_pingInterval c)"
proof -
  assume inv: "websocket_inv c"
  show ?thesis
  proof (cases "pingInterval c")
    case None
    then show ?thesis using inv by (simp add: clear_pingInterval_def)
  next
    case (Some j)
    with inv have "\<forall>cb' d. (j, cb', d) \<in> set (timers c) \<longrightarrow> cb' \<noteq> ReconnectCb"
      by (auto simp: websocket_inv_def interval_ok_def)
    with inv have "timers_ok (clearTimer j c)"
      by (simp add: websocket_inv_def timers_ok_clear_other)
    with Some show ?thesis
      by (simp add: clear_pingInterval_def websocket_inv_def timers_ok_def interval_ok_def)
  qed
qed

lemma websocket_inv_clear_reconnectTimer:
  "websocket_inv c \<Longrightarrow> websocket_inv (clear_reconnectTimer c)"
proof -
  assume inv: "websocket_inv c"
  have "pingInterval (clear_reconnectTimer c) = pingInterval c"
    by (simp add: clear_reconnectTimer_def clearTimer_def split: option.splits)
  then show ?thesis
    using inv
    by (simp add: websocket_inv_def timers_ok_clear_reconnect interval_ok_clear_reconnectTimer)
qed

lemma websocket_inv_close_ws: "websocket_inv c \<Longrightarrow> websocket_inv (close_ws c)"
  by (simp add: websocket_inv_def close_ws_def timers_ok_def interval_ok_def
      split: option.splits)

lemma websocket_inv_disconnect: "websocket_inv c \<Longrightarrow> websocket_inv (websocket_disconnect c)"
proof -
  assume "websocket_inv c"
  then have "websocket_inv (close_ws (clear_pingInterval (clear_reconnectTimer c)))"
    by (intro websocket_inv_close_ws websocket_inv_clear_pingInterval
        websocket_inv_clear_reconnectTimer)
  then show ?thesis by (simp add: websocket_disconnect_def websocket_inv_store)
qed

lemma websocket_inv_schedule:
  assumes inv: "websocket_inv c" and none: "reconnectTimer c = None"
  shows "websocket_inv ((setTimer ReconnectCb 5000 c)\<lparr>reconnectTimer := Some (timer_seq c)\<rparr>)"
proof -
  have 1: "timers_ok ((setTimer ReconnectCb 5000 c)\<lparr>reconnectTimer := Some (timer_seq c)\<rparr>)"
    using inv none unfolding websocket_inv_def by (intro timers_ok_schedule) auto
  have 2: "interval_ok PingCb (pingInterval c) (setTimer ReconnectCb 5000 c)"
    using inv unfolding websocket_inv_def by (intro interval_ok_setTimer) auto
  from 1 2 show ?thesis
    by (simp add: websocket_inv_def interval_ok_def setTimer_def)
qed

lemma websocket_inv_onclose: "websocket_inv c \<Longrightarrow> websocket_inv (websocket_onclose c)"
proof -
  assume inv: "websocket_inv c"
  let ?c1 = "clear_pingInterval (c\<lparr>store := (store c)\<lparr>connected := False\<rparr>\<rparr>)"
  have inv1: "websocket_inv ?c1"
    using inv by (simp add: websocket_inv_clear_pingInterval websocket_inv_store)
  show ?thesis
  proof (cases "reconnectTimer ?c1")
    case (Some i)
    then show ?thesis using inv1 by (simp add: websocket_onclose_def Let_def)
  next
    case None
    let ?c2 = "?c1\<lparr>store := (store ?c1)\<lparr>reconnecting := True\<rparr>\<rparr>"
    have "websocket_inv ?c2" using inv1 by (simp add: websocket_inv_store)
    moreover have "reconnectTimer ?c2 = None" using None by simp
    ultimately have
      "websocket_inv ((setTimer ReconnectCb 5000 ?c2)\<lparr>reconnectTimer := Some (timer_seq ?c2)\<rparr>)"
      by (rule websocket_inv_schedule)
    with None show ?thesis by (simp add: websocket_onclose_def Let_def)
  qed
qed

lemma websocket_inv_timer: "websocket_inv c \<Longrightarrow> websocket_inv (websocket_timer i ok c)"
proof -
  assume inv: "websocket_inv c"
  show ?thesis
  proof (cases "map_of (timers c) i")
    case None
    then show ?thesis using inv by (simp add: websocket_timer_def)
  next
    case (Some p)
    obtain cb d where p: "p = (cb, d)" by (cases p)
    show ?thesis
    proof (cases cb)
      case ReconnectCb
      with Some p inv have r: "reconnectTimer c = Some i"
        using fired_reconnect [of c i d] by (simp add: websocket_inv_def)
      then have "(clearTimer i c)\<lparr>reconnectTimer := None\<rparr> = clear_reconnectTimer c"
        by (simp add: clear_reconnectTimer_def)
      then show ?thesis using Some p ReconnectCb inv
        by (simp add: websocket_timer_def websocket_inv_connect
            websocket_inv_clear_reconnectTimer)
    next
      case StaleCheckCb
      then show ?thesis using Some p inv by (simp add: websocket_timer_def)
    next
      case PingCb
      then show ?thesis using Some p inv by (simp add: websocket_timer_def)
    qed
  qed
qed

lemma websocket_inv_step: "websocket_inv c \<Longrightarrow> websocket_inv (websocket_step ev c)"
  by (cases ev)
     (simp_all add: websocket_inv_connect websocket_inv_disconnect websocket_inv_onopen
        websocket_inv_onclose websocket_inv_timer websocket_inv_store websocket_inv_sockets
        websocket_onerror_def)

lemma websocket_inv_run: "websocket_inv c \<Longrightarrow> websocket_inv (websocket_run evs c)"
  unfolding websocket_run_def
  by (induction evs arbitrary: c) (auto simp: websocket_inv_step)

lemma websocket_inv_init: "websocket_inv websocket_init"
  by (simp add: websocket_inv_def timers_ok_def interval_ok_def websocket_init_def)

subsection \<open>A close event\<close>

lemma trading_onclose_reconnectTimer: "reconnectTimer (trading_onclose c) \<noteq> None"
  by (simp add: trading_onclose_def Let_def setTimer_def)

lemma websocket_onclose_reconnectTimer: "reconnectTimer (websocket_onclose c) \<noteq> None"
  by (simp add: websocket_onclose_def Let_def setTimer_def)

lemma websocket_onclose_reconnecting:
  "reconnectTimer c = None \<Longrightarrow> reconnecting (store (websocket_onclose c))"
  by (simp add: websocket_onclose_def Let_def setTimer_def clear_pingInterval_def clearTimer_def
      split: option.splits)

lemma websocket_connect_reconnecting:
  "\<not> ws_is_open c \<Longrightarrow> \<not> reconnecting (store (websocket_connect ok c))"
  by (simp add: websocket_connect_def Let_def new_WebSocket_def)

lemma trading_close_schedules:
  assumes inv: "trading_inv c" and i: "i < length (sockets c)" "sockets c ! i \<noteq> CLOSED"
    and c': "c' = trading_step parse rt (Socket_close i) c"
  shows "\<exists>t. reconnectTimer c' = Some t \<and> pending ReconnectCb c' = [(t, 5000)]
           \<and> (\<forall>rt' ok. trading_step parse rt' (Timer_fire t ok) c'
                 = trading_connect ok ((clearTimer t c')\<lparr>reconnectTimer := None\<rparr>))
           \<and> (\<forall>rt' ok. pending ReconnectCb (trading_step parse rt' (Timer_fire t ok) c') = [])"
proof -
  have c'_eq: "c' = trading_onclose (c\<lparr>sockets := (sockets c)[i := CLOSED]\<rparr>)"
    using i c' by simp
  have inv': "trading_inv c'"
    unfolding c'_eq using inv by (simp add: trading_inv_onclose trading_inv_sockets)
  from c'_eq obtain t where t: "reconnectTimer c' = Some t"
    using trading_onclose_reconnectTimer by blast
  have ok': "timers_ok c'" using inv' by (simp add: trading_inv_def)
  have p: "pending ReconnectCb c' = [(t, 5000)]" using timers_ok_pending [OF ok'] t by simp
  have m: "map_of (timers c') t = Some (ReconnectCb, 5000)" using timers_ok_map_of [OF ok' t] .
  have f: "trading_step parse rt' (Timer_fire t ok) c'
             = trading_connect ok ((clearTimer t c')\<lparr>reconnectTimer := None\<rparr>)" for rt' ok
    using m by (simp add: trading_timer_def)
  have e: "pending ReconnectCb (trading_step parse rt' (Timer_fire t ok) c') = []" for rt' ok
  proof -
    have "trading_inv (trading_step parse rt' (Timer_fire t ok) c')"
      using inv' by (rule trading_inv_step)
    then have "timers_ok (trading_step parse rt' (Timer_fire t ok) c')"
      by (simp add: trading_inv_def)
    moreover have "reconnectTimer (trading_step parse rt' (Timer_fire t ok) c') = None"
      unfolding f by (simp add: trading_connect_def Let_def new_WebSocket_def clearTimer_def)
    ultimately show ?thesis using timers_ok_pending by fastforce
  qed
  show ?thesis
    by (rule exI [of _ t]) (use t p f e in \<open>intro conjI allI impI; assumption?\<close>)
qed

lemma websocket_close_schedules:
  assumes inv: "websocket_inv c" and i: "i < length (sockets c)" "sockets c ! i \<noteq> CLOSED"
    and c': "c' = websocket_step (Socket_close i) c"
  shows "\<exists>t. reconnectTimer c' = Some t \<and> pending ReconnectCb c' = [(t, 5000)]
           \<and> (\<forall>ok. websocket_step (Timer_fire t ok) c'
                 = websocket_connect ok ((clearTimer t c')\<lparr>reconnectTimer := None\<rparr>))
           \<and> (\<forall>ok. pending ReconnectCb (websocket_step (Timer_fire t ok) c') = [])
           \<and> (reconnectTimer c = None \<longrightarrow> reconnecting (store c'))
           \<and> (\<forall>ok. \<not> ws_is_open c' \<longrightarrow>
                 \<not> reconnecting (store (websocket_step (Timer_fire t ok) c')))"
proof -
  have c'_eq: "c' = websocket_onclose (c\<lparr>sockets := (sockets c)[i := CLOSED]\<rparr>)"
    using i c' by simp
  have inv': "websocket_inv c'"
    unfolding c'_eq using inv by (simp add: websocket_inv_onclose websocket_inv_sockets)
  from c'_eq obtain t where t: "reconnectTimer c' = Some t"
    using websocket_onclose_reconnectTimer by blast
  have ok': "timers_ok c'" using inv' by (simp add: websocket_inv_def)
  have p: "pending ReconnectCb c' = [(t, 5000)]" using timers_ok_pending [OF ok'] t by simp
  have m: "map_of (timers c') t = Some (ReconnectCb, 5000)" using timers_ok_map_of [OF ok' t] .
  have f: "websocket_step (Timer_fire t ok) c'
             = websocket_connect ok ((clearTimer t c')\<lparr>reconnectTimer := None\<rparr>)" for ok
    using m by (simp add: websocket_timer_def)
  have e: "pending ReconnectCb (websocket_step (Timer_fire t ok) c') = []" for ok
  proof -
    have "websocket_inv (websocket_step (Timer_fire t ok) c')"
      using inv' by (rule websocket_inv_step)
    then have "timers_ok (websocket_step (Timer_fire t ok) c')"
      by (simp add: websocket_inv_def)
    moreover have "reconnectTimer (websocket_step (Timer_fire t ok) c') = None"
      unfolding f by (simp add: websocket_connect_def Let_def new_WebSocket_def clearTimer_def)
    ultimately show ?thesis using timers_ok_pending by fastforce
  qed
  have r: "reconnecting (store c')" if "reconnectTimer c = None"
    unfolding c'_eq using that by (intro websocket_onclose_reconnecting) simp
  have n: "\<not> reconnecting (store (websocket_step (Timer_fire t ok) c'))"
    if "\<not> ws_is_open c'" for ok
    unfolding f using that
    by (intro websocket_connect_reconnecting)
       (simp add: ws_is_open_def clearTimer_def split: option.splits)
  show ?thesis
    by (rule exI [of _ t]) (use t p f e r n in \<open>intro conjI allI impI; assumption?\<close>)
qed

subsection \<open>The example runs, evaluated\<close>

lemmas run_defs = trading_run_def websocket_run_def trading_init_def websocket_init_def
  trading_connect_def websocket_connect_def trading_onopen_def websocket_onopen_def
  trading_onclose_def websocket_onclose_def trading_disconnect_def websocket_disconnect_def
  trading_timer_def websocket_timer_def startStaleCheck_def stopStaleCheck_def
  clear_pingInterval_def clear_reconnectTimer_def close_ws_def new_WebSocket_def setTimer_def
  clearTimer_def ws_is_open_def Let_def

lemma trading_opened_value:
  "trading_opened =
     \<lparr>store = set_prop ''error'' Null (set_prop ''connected'' (JBool True)
                (set_prop ''error'' Null initialState)),
      ws = Some 0, reconnectTimer = None, sockets = [OPEN],
      timers = [(1, StaleCheckCb, 30000)], timer_seq = 2, staleCheckTimer = Some 1\<rparr>"
  by (simp add: trading_opened_def run_defs)

lemma trading_left_value:
  "trading_left =
     \<lparr>store = set_prop ''connected'' (JBool False) initialState,
      ws = None, reconnectTimer = Some 2, sockets = [CLOSED],
      timers = [(2, ReconnectCb, 5000)], timer_seq = 3, staleCheckTimer = None\<rparr>"
  by (simp add: trading_left_def trading_opened_value run_defs)

lemma websocket_opened_value:
  "websocket_opened =
     \<lparr>store = \<lparr>connected = True, ws_error = None, reconnecting = False\<rparr>,
      ws = Some 0, reconnectTimer = None, sockets = [OPEN],
      timers = [(1, PingCb, 30000)], timer_seq = 2, pingInterval = Some 1\<rparr>"
  by (simp add: websocket_opened_def run_defs)

lemma websocket_dropped_value:
  "websocket_dropped =
     \<lparr>store = \<lparr>connected = False, ws_error = None, reconnecting = True\<rparr>,
      ws = Some 0, reconnectTimer = Some 2, sockets = [CLOSED],
      timers = [(2, ReconnectCb, 5000)], timer_seq = 3, pingInterval = None\<rparr>"
  by (simp add: websocket_dropped_def websocket_opened_value run_defs)

lemma websocket_left_value:
  "websocket_left =
     \<lparr>store = \<lparr>connected = False, ws_error = None, reconnecting = True\<rparr>,
      ws = None, reconnectTimer = Some 2, sockets = [CLOSED],
      timers = [(2, ReconnectCb, 5000)], timer_seq = 3, pingInterval = None\<rparr>"
  by (simp add: websocket_left_def websocket_opened_value run_defs)

subsection \<open>Teardown and reconnection\<close>

text \<open>
  Claim C6 (the code departs from it).  \<^verbatim>\<open>disconnect()\<close> clears the timers it knows
  and closes the socket, but leaves the handlers on it.  In the example the page
  disconnects while the socket is open and the close event of that socket follows:
  \<^verbatim>\<open>onclose\<close> sets a reconnect timer; when it fires, \<^verbatim>\<open>connect()\<close> creates a second
  socket, and when that one opens the store says \<^verbatim>\<open>connected\<close> again.  Both streams
  do so.
\<close>

theorem close_after_disconnect_reconnects:
  "reconnectTimer trading_left = Some 2
   \<and> pending ReconnectCb trading_left = [(2, 5000)]
   \<and> ws (trading_run example_parse [(T1, Timer_fire 2 True)] trading_left) = Some 1
   \<and> sockets (trading_run example_parse [(T1, Timer_fire 2 True)] trading_left)
       = [CLOSED, CONNECTING]
   \<and> field (store (trading_run example_parse [(T1, Timer_fire 2 True), (T1, Socket_open 1)]
                     trading_left)) ''connected'' = JBool True
   \<and> reconnectTimer websocket_left = Some 2
   \<and> pending ReconnectCb websocket_left = [(2, 5000)]
   \<and> reconnecting (store websocket_left)
   \<and> ws (websocket_run [Timer_fire 2 True] websocket_left) = Some 1
   \<and> connected (store (websocket_run [Timer_fire 2 True, Socket_open 1] websocket_left))"
  by (simp add: trading_left_value websocket_left_value pending_def run_defs field_set_prop)

text \<open>
  Claim C7, as the spec states it, fails in its parenthesis: on the device stream
  \<^verbatim>\<open>reconnecting\<close> is true after the close, but the reconnect timer, when it fires,
  runs \<^verbatim>\<open>connect()\<close>, which resets the flag at once; the new socket is still
  connecting and nothing has opened.
\<close>

theorem reconnecting_reset_before_open:
  "reconnecting (store websocket_dropped)
   \<and> pending ReconnectCb websocket_dropped = [(2, 5000)]
   \<and> \<not> reconnecting (store (websocket_run [Timer_fire 2 True] websocket_dropped))
   \<and> \<not> connected (store (websocket_run [Timer_fire 2 True] websocket_dropped))
   \<and> sockets (websocket_run [Timer_fire 2 True] websocket_dropped) = [CLOSED, CONNECTING]"
  by (simp add: websocket_dropped_value pending_def run_defs)

text \<open>
  Claim C7, amended.  In every state either stream can reach, at most one reconnect timer
  is pending.  After the close event of a socket exactly one is pending, with a delay of
  5000 ms: \<^verbatim>\<open>onclose\<close> sets one only when none is pending, so overlapping close
  events never make a second.  When it fires it is spent and \<^verbatim>\<open>connect()\<close> runs.  On
  the device stream a close that sets the timer sets \<^verbatim>\<open>reconnecting\<close>, and the flag
  is reset when the timer fires: \<^verbatim>\<open>connect()\<close>, unless the current socket is open,
  clears it before the new socket opens.
\<close>

theorem close_schedules_one_reconnect:
  assumes c: "c = trading_run parse evs trading_init"
    and w: "w = websocket_run evs' websocket_init"
    and i: "i < length (sockets c)" "sockets c ! i \<noteq> CLOSED"
    and k: "k < length (sockets w)" "sockets w ! k \<noteq> CLOSED"
    and c': "c' = trading_step parse rt (Socket_close i) c"
    and w': "w' = websocket_step (Socket_close k) w"
  shows "length (pending ReconnectCb c) \<le> 1 \<and> length (pending ReconnectCb w) \<le> 1
       \<and> (\<exists>t. reconnectTimer c' = Some t \<and> pending ReconnectCb c' = [(t, 5000)]
             \<and> (\<forall>rt' ok. trading_step parse rt' (Timer_fire t ok) c'
                   = trading_connect ok ((clearTimer t c')\<lparr>reconnectTimer := None\<rparr>))
             \<and> (\<forall>rt' ok. pending ReconnectCb (trading_step parse rt' (Timer_fire t ok) c') = []))
       \<and> (\<exists>t. reconnectTimer w' = Some t \<and> pending ReconnectCb w' = [(t, 5000)]
             \<and> (\<forall>ok. websocket_step (Timer_fire t ok) w'
                   = websocket_connect ok ((clearTimer t w')\<lparr>reconnectTimer := None\<rparr>))
             \<and> (\<forall>ok. pending ReconnectCb (websocket_step (Timer_fire t ok) w') = [])
             \<and> (reconnectTimer w = None \<longrightarrow> reconnecting (store w'))
             \<and> (\<forall>ok. \<not> ws_is_open w' \<longrightarrow>
                   \<not> reconnecting (store (websocket_step (Timer_fire t ok) w'))))"
proof -
  have inv_c: "trading_inv c" unfolding c using trading_inv_init by (rule trading_inv_run)
  have inv_w: "websocket_inv w" unfolding w using websocket_inv_init by (rule websocket_inv_run)
  have "length (pending ReconnectCb c) \<le> 1"
    using inv_c by (intro timers_ok_length) (simp add: trading_inv_def)
  moreover have "length (pending ReconnectCb w) \<le> 1"
    using inv_w by (intro timers_ok_length) (simp add: websocket_inv_def)
  moreover note trading_close_schedules [OF inv_c i c']
    and websocket_close_schedules [OF inv_w k w']
  ultimately show ?thesis by (intro conjI)
qed

text \<open>
  Both streams of the example, connected and open: the close of the socket leaves one
  reconnect timer, and the device stream is reconnecting.
\<close>

theorem close_schedules_one_reconnect_witness:
  "length (pending ReconnectCb trading_opened) \<le> 1
   \<and> (\<exists>t. reconnectTimer (trading_step example_parse T1 (Socket_close 0) trading_opened) = Some t
         \<and> pending ReconnectCb (trading_step example_parse T1 (Socket_close 0) trading_opened)
             = [(t, 5000)])
   \<and> (\<exists>t. reconnectTimer (websocket_step (Socket_close 0) websocket_opened) = Some t
         \<and> pending ReconnectCb (websocket_step (Socket_close 0) websocket_opened) = [(t, 5000)])
   \<and> reconnecting (store (websocket_step (Socket_close 0) websocket_opened))"
proof -
  have i: "0 < length (sockets trading_opened)" "sockets trading_opened ! 0 \<noteq> CLOSED"
    and k: "0 < length (sockets websocket_opened)" "sockets websocket_opened ! 0 \<noteq> CLOSED"
    and n: "reconnectTimer websocket_opened = None"
    by (simp_all add: trading_opened_value websocket_opened_value)
  from close_schedules_one_reconnect [OF trading_opened_def websocket_opened_def i k refl refl,
      of T1] n
  show ?thesis by blast
qed

end
